theory Spec2Isabelle
  imports Complex_Main "HOL-Library.Char_ord" "HOL-Library.List_Lexorder"
begin

section \<open>Runtime values\<close>

text \<open>
  The module \<^verbatim>\<open>src/solprism.ts\<close> builds plain JavaScript objects, serialises them with
  \<^verbatim>\<open>JSON.stringify\<close> and hashes the text. A JavaScript \<^verbatim>\<open>number\<close> is a double: the
  program never computes with one, it only compares (\<^verbatim>\<open>>= 80\<close>) and prints, so a finite
  double is represented by the real number it denotes, next to the three special values.
  A string is the list of the bytes of its UTF-8 text.
\<close>

datatype number = Finite real | NaN | PosInfinity | NegInfinity

fun isFinite :: "number \<Rightarrow> bool" where
  "isFinite (Finite x) = True"
| "isFinite NaN = False"
| "isFinite PosInfinity = False"
| "isFinite NegInfinity = False"

text \<open>The relational operators \<^verbatim>\<open>>=\<close> and \<^verbatim>\<open><\<close> of JavaScript: false as soon as one side is NaN.\<close>

fun num_ge :: "number \<Rightarrow> number \<Rightarrow> bool" where
  "num_ge NaN y = False"
| "num_ge x NaN = False"
| "num_ge (Finite a) (Finite b) = (b \<le> a)"
| "num_ge PosInfinity y = True"
| "num_ge x NegInfinity = True"
| "num_ge NegInfinity y = False"
| "num_ge x PosInfinity = False"

fun num_lt :: "number \<Rightarrow> number \<Rightarrow> bool" where
  "num_lt NaN y = False"
| "num_lt x NaN = False"
| "num_lt (Finite a) (Finite b) = (a < b)"
| "num_lt PosInfinity y = False"
| "num_lt x NegInfinity = False"
| "num_lt NegInfinity y = True"
| "num_lt x PosInfinity = True"

text \<open>The length of an array, as a number.\<close>

definition ofLength :: "nat \<Rightarrow> number" where
  "ofLength n = Finite (real n)"

text \<open>
  What the program takes from the platform and not from its own code: the SHA-256 digest in
  hexadecimal (\<^verbatim>\<open>crypto.createHash("sha256").update(s).digest("hex")\<close>), the conversion of a
  number to a string (used by template literals and by JSON), and
  \<^verbatim>\<open>Date.prototype.toISOString\<close>. They are parameters of the model: every theorem holds for
  all of them.
\<close>

record runtime =
  sha256hex :: "string \<Rightarrow> string"
  numberToString :: "number \<Rightarrow> string"
  toISOString :: "number \<Rightarrow> string"

text \<open>\<^verbatim>\<open>Array.prototype.join\<close> on an array of strings.\<close>

fun join :: "string \<Rightarrow> string list \<Rightarrow> string" where
  "join sep [] = []"
| "join sep [x] = x"
| "join sep (x # y # ys) = x @ sep @ join sep (y # ys)"

section \<open>JSON.stringify with an array replacer\<close>

text \<open>
  A JavaScript value made of plain data. The list of an object holds its own enumerable
  properties in insertion order; an absent optional property is simply not in the list.
\<close>

datatype jsval =
    JUndefined
  | JNull
  | JBool bool
  | JNum number
  | JStr string
  | JArr "jsval list"
  | JObj "(string \<times> jsval) list"

type_synonym jsobject = "(string \<times> jsval) list"

definition Object_keys :: "jsobject \<Rightarrow> string list" where
  "Object_keys obj = map fst obj"

text \<open>QuoteJSONString of ECMAScript: the double quote, the backslash and the control characters
  are escaped, every other character stands for itself.\<close>

definition hexDigit :: "nat \<Rightarrow> char" where
  "hexDigit n = ''0123456789abcdef'' ! (n mod 16)"

definition quoteChar :: "char \<Rightarrow> string" where
  "quoteChar c =
     (if c = CHR 0x08 then [CHR 0x5C, CHR ''b'']
      else if c = CHR 0x09 then [CHR 0x5C, CHR ''t'']
      else if c = CHR 0x0A then [CHR 0x5C, CHR ''n'']
      else if c = CHR 0x0C then [CHR 0x5C, CHR ''f'']
      else if c = CHR 0x0D then [CHR 0x5C, CHR ''r'']
      else if c = CHR 0x22 then [CHR 0x5C, CHR 0x22]
      else if c = CHR 0x5C then [CHR 0x5C, CHR 0x5C]
      else if (of_char c :: nat) < 32
        then [CHR 0x5C, CHR ''u'', CHR ''0'', CHR ''0'',
              hexDigit (of_char c div 16), hexDigit (of_char c mod 16)]
      else [c])"

definition quoteJSONString :: "string \<Rightarrow> string" where
  "quoteJSONString s = CHR 0x22 # concat (map quoteChar s) @ [CHR 0x22]"

text \<open>
  The property list of \<^verbatim>\<open>JSON.stringify(value, replacer)\<close> when the replacer is an array of
  strings: its elements, each kept at its first occurrence.
\<close>

definition propertyList :: "string list \<Rightarrow> string list" where
  "propertyList replacer = foldl (\<lambda>acc k. if k \<in> set acc then acc else acc @ [k]) [] replacer"

text \<open>
  SerializeJSONArray: an element without a JSON text (\<^verbatim>\<open>undefined\<close>) is written \<^verbatim>\<open>null\<close>.
\<close>

definition serializeJSONArray :: "string option list \<Rightarrow> string" where
  "serializeJSONArray parts =
     ''['' @ join '','' (map (\<lambda>p. case p of None \<Rightarrow> ''null'' | Some s \<Rightarrow> s) parts) @ '']''"

text \<open>
  SerializeJSONObject with a property list \<open>K\<close>: the keys written are those of \<open>K\<close>, in the
  order of \<open>K\<close>, and only those the object has with a value that has a JSON text. The list
  \<open>K\<close> is the same at every depth of the value. \<open>props\<close> holds, for each property of the
  object, the text of its value.
\<close>

definition serializeJSONObject :: "string list \<Rightarrow> (string \<times> string option) list \<Rightarrow> string" where
  "serializeJSONObject K props =
     (let partial = concat (map (\<lambda>P. case map_of props P of
                                        Some (Some strP) \<Rightarrow> [quoteJSONString P @ '':'' @ strP]
                                      | _ \<Rightarrow> []) K)
      in if partial = [] then ''{}'' else ''{'' @ join '','' partial @ ''}'')"

text \<open>SerializeJSONProperty on the value of a property; \<open>None\<close> is \<^verbatim>\<open>undefined\<close>.\<close>

fun serializeJSONProperty :: "runtime \<Rightarrow> string list \<Rightarrow> jsval \<Rightarrow> string option" where
  "serializeJSONProperty rt K JUndefined = None"
| "serializeJSONProperty rt K JNull = Some ''null''"
| "serializeJSONProperty rt K (JBool b) = Some (if b then ''true'' else ''false'')"
| "serializeJSONProperty rt K (JNum n) =
     Some (if isFinite n then numberToString rt n else ''null'')"
| "serializeJSONProperty rt K (JStr s) = Some (quoteJSONString s)"
| "serializeJSONProperty rt K (JArr xs) =
     Some (serializeJSONArray (map (serializeJSONProperty rt K) xs))"
| "serializeJSONProperty rt K (JObj ps) =
     Some (serializeJSONObject K (map (\<lambda>(k, v). (k, serializeJSONProperty rt K v)) ps))"

text \<open>\<^verbatim>\<open>JSON.stringify(obj, replacer)\<close> for an object \<open>obj\<close> and an array \<open>replacer\<close> of strings.\<close>

definition JSON_stringify :: "runtime \<Rightarrow> string list \<Rightarrow> jsobject \<Rightarrow> string" where
  "JSON_stringify rt replacer obj =
     serializeJSONObject (propertyList replacer)
       (map (\<lambda>(k, v). (k, serializeJSONProperty rt (propertyList replacer) v)) obj)"

section \<open>Hash utility\<close>

text \<open>
  \<^verbatim>\<open>hashTrace\<close>: the replacer is the sorted list of the top-level keys of the trace
  (\<^verbatim>\<open>Array.prototype.sort\<close> without a comparator orders strings lexicographically).
\<close>

definition hashTrace :: "runtime \<Rightarrow> jsobject \<Rightarrow> string" where
  "hashTrace rt trace =
     (let canonical = JSON_stringify rt (sort (Object_keys trace)) trace
      in sha256hex rt canonical)"

section \<open>Types\<close>

text \<open>
  The interfaces of the module, one record each. A nested object type of \<^verbatim>\<open>ReasoningTrace\<close>
  gets a record of its own. Where two interfaces use the same field name, the field carries
  a prefix (\<open>stage_name\<close>, \<open>ds_name\<close>); an optional field is an \<open>option\<close>. The string unions
  \<^verbatim>\<open>"buy" | "sell" | "hold"\<close> and \<^verbatim>\<open>"safe" | "suspicious" | "dangerous"\<close> are datatypes, with
  the string each value is.
\<close>

record TraceAction =
  action_type :: string
  action_description :: string
  transactionSignature :: "string option"

record DataSource =
  ds_name :: string
  ds_type :: string
  queriedAt :: string
  summary :: string

record TraceInputs =
  dataSources :: "DataSource list"
  inputs_context :: string

record Alternative =
  alt_action :: string
  reasonRejected :: string

record TraceAnalysis =
  observations :: "string list"
  logic :: string
  alternativesConsidered :: "Alternative list"

record TraceDecision =
  actionChosen :: string
  confidence :: number
  riskAssessment :: string
  expectedOutcome :: string

datatype scalar = SString string | SNumber number | SBoolean bool

record TraceMetadata =
  model :: "string option"
  sessionId :: "string option"
  executionTimeMs :: "number option"
  custom :: "(string \<times> scalar) list option"

record ReasoningTrace =
  version :: string
  agent :: string
  timestamp :: number
  action :: TraceAction
  inputs :: TraceInputs
  analysis :: TraceAnalysis
  decision :: TraceDecision
  metadata :: "TraceMetadata option"

record PredictionStage =
  stage_name :: string
  passed :: bool
  stage_confidence :: number
  stage_reason :: string

datatype RiskLevel = safe | suspicious | dangerous

fun riskLevelText :: "RiskLevel \<Rightarrow> string" where
  "riskLevelText safe = ''safe''"
| "riskLevelText suspicious = ''suspicious''"
| "riskLevelText dangerous = ''dangerous''"

record ScamCheckResult =
  scam_tokenMint :: string
  isScam :: bool
  checks :: "string list"
  riskLevel :: RiskLevel

datatype TradeAction = buy | sell | hold

fun tradeActionText :: "TradeAction \<Rightarrow> string" where
  "tradeActionText buy = ''buy''"
| "tradeActionText sell = ''sell''"
| "tradeActionText hold = ''hold''"

record CyclicSignal =
  alignment :: number
  window :: string

record TradeDecision =
  tokenMint :: string
  trade_action :: TradeAction
  amount :: number
  predictionStages :: "PredictionStage list"
  scamCheck :: "ScamCheckResult option"
  cyclicSignal :: "CyclicSignal option"
  trade_confidence :: number

record FirewallParams =
  transactionType :: string
  simulated :: bool
  simulationPassed :: bool
  spendLimitOk :: bool
  slippageOk :: bool
  programAllowed :: bool
  approved :: bool
  reason :: string

subsection \<open>A typed trace as a runtime object\<close>

text \<open>
  The object a record stands for, its properties in the order of the object literals of the
  builders (which is the order of the interface). An absent optional field gives no property.
\<close>

definition optionalProperty :: "string \<Rightarrow> ('a \<Rightarrow> jsval) \<Rightarrow> 'a option \<Rightarrow> jsobject" where
  "optionalProperty k f x = (case x of None \<Rightarrow> [] | Some y \<Rightarrow> [(k, f y)])"

definition actionObject :: "TraceAction \<Rightarrow> jsobject" where
  "actionObject a =
     [(''type'', JStr (action_type a)), (''description'', JStr (action_description a))]
     @ optionalProperty ''transactionSignature'' JStr (transactionSignature a)"

definition dataSourceObject :: "DataSource \<Rightarrow> jsobject" where
  "dataSourceObject s =
     [(''name'', JStr (ds_name s)), (''type'', JStr (ds_type s)),
      (''queriedAt'', JStr (queriedAt s)), (''summary'', JStr (summary s))]"

definition inputsObject :: "TraceInputs \<Rightarrow> jsobject" where
  "inputsObject i =
     [(''dataSources'', JArr (map (\<lambda>s. JObj (dataSourceObject s)) (dataSources i))),
      (''context'', JStr (inputs_context i))]"

definition alternativeObject :: "Alternative \<Rightarrow> jsobject" where
  "alternativeObject a =
     [(''action'', JStr (alt_action a)), (''reasonRejected'', JStr (reasonRejected a))]"

definition analysisObject :: "TraceAnalysis \<Rightarrow> jsobject" where
  "analysisObject a =
     [(''observations'', JArr (map JStr (observations a))),
      (''logic'', JStr (logic a)),
      (''alternativesConsidered'',
         JArr (map (\<lambda>x. JObj (alternativeObject x)) (alternativesConsidered a)))]"

definition decisionObject :: "TraceDecision \<Rightarrow> jsobject" where
  "decisionObject d =
     [(''actionChosen'', JStr (actionChosen d)), (''confidence'', JNum (confidence d)),
      (''riskAssessment'', JStr (riskAssessment d)),
      (''expectedOutcome'', JStr (expectedOutcome d))]"

fun scalarValue :: "scalar \<Rightarrow> jsval" where
  "scalarValue (SString s) = JStr s"
| "scalarValue (SNumber n) = JNum n"
| "scalarValue (SBoolean b) = JBool b"

definition metadataObject :: "TraceMetadata \<Rightarrow> jsobject" where
  "metadataObject m =
     optionalProperty ''model'' JStr (model m)
     @ optionalProperty ''sessionId'' JStr (sessionId m)
     @ optionalProperty ''executionTimeMs'' JNum (executionTimeMs m)
     @ optionalProperty ''custom'' (\<lambda>c. JObj (map (\<lambda>(k, v). (k, scalarValue v)) c)) (custom m)"

definition traceObject :: "ReasoningTrace \<Rightarrow> jsobject" where
  "traceObject t =
     [(''version'', JStr (version t)),
      (''agent'', JStr (agent t)),
      (''timestamp'', JNum (timestamp t)),
      (''action'', JObj (actionObject (action t))),
      (''inputs'', JObj (inputsObject (inputs t))),
      (''analysis'', JObj (analysisObject (analysis t))),
      (''decision'', JObj (decisionObject (decision t)))]
     @ optionalProperty ''metadata'' (\<lambda>m. JObj (metadataObject m)) (metadata t)"

section \<open>Reasoning trace builders\<close>

text \<open>The constants of the module, and the glyphs of its string literals as UTF-8 bytes.\<close>

definition SOLPRISM_SCHEMA_VERSION :: string where
  "SOLPRISM_SCHEMA_VERSION = ''1.0.0''"

definition CHECK_MARK :: string where
  "CHECK_MARK = [CHR 0xE2, CHR 0x9C, CHR 0x85]"

definition CROSS_MARK :: string where
  "CROSS_MARK = [CHR 0xE2, CHR 0x9D, CHR 0x8C]"

definition SKIP_MARK :: string where
  "SKIP_MARK = [CHR 0xE2, CHR 0x8F, CHR 0xAD, CHR 0xEF, CHR 0xB8, CHR 0x8F]"

definition SHIELD_MARK :: string where
  "SHIELD_MARK = [CHR 0xF0, CHR 0x9F, CHR 0x9B, CHR 0xA1, CHR 0xEF, CHR 0xB8, CHR 0x8F]"

definition EM_DASH :: string where
  "EM_DASH = [CHR 0xE2, CHR 0x80, CHR 0x94]"

text \<open>
  \<^verbatim>\<open>String.prototype.toUpperCase\<close> on the strings the module applies it to, which are the
  members of the two string unions: lower-case ASCII letters. \<^verbatim>\<open>slice(0, n)\<close> is \<open>take n\<close>:
  the module slices a mint address (base 58) and a digest (hexadecimal), where a character
  is one byte.
\<close>

definition toUpperCase :: "string \<Rightarrow> string" where
  "toUpperCase s =
     map (\<lambda>c. case map_of (zip ''abcdefghijklmnopqrstuvwxyz'' ''ABCDEFGHIJKLMNOPQRSTUVWXYZ'') c of
                 Some u \<Rightarrow> u
               | None \<Rightarrow> c) s"

subsection \<open>createTradeReasoningTrace\<close>

text \<open>
  The three constants at the head of the function. Its local \<^verbatim>\<open>approved\<close> is named
  \<open>tradeApproved\<close> here, \<open>approved\<close> being the field of the firewall parameters.
  \<^verbatim>\<open>every\<close> is true on the empty array.
\<close>

definition allStagesPassed :: "TradeDecision \<Rightarrow> bool" where
  "allStagesPassed d = list_all passed (predictionStages d)"

definition scamSafe :: "TradeDecision \<Rightarrow> bool" where
  "scamSafe d = (case scamCheck d of None \<Rightarrow> True | Some sc \<Rightarrow> \<not> isScam sc)"

definition tradeApproved :: "TradeDecision \<Rightarrow> bool" where
  "tradeApproved d = (allStagesPassed d \<and> scamSafe d)"

definition stageObservation :: "runtime \<Rightarrow> PredictionStage \<Rightarrow> string" where
  "stageObservation rt s =
     stage_name s @ '': '' @ (if passed s then CHECK_MARK @ '' PASS'' else CROSS_MARK @ '' FAIL'')
     @ '' ('' @ numberToString rt (stage_confidence s) @ ''% confidence) '' @ EM_DASH @ '' ''
     @ stage_reason s"

definition tradeObservations :: "runtime \<Rightarrow> TradeDecision \<Rightarrow> string list" where
  "tradeObservations rt d =
     [''Token: '' @ take 8 (tokenMint d) @ ''...'',
      ''Action: '' @ toUpperCase (tradeActionText (trade_action d)),
      ''Amount: '' @ numberToString rt (amount d)]
     @ map (stageObservation rt) (predictionStages d)
     @ (case scamCheck d of
          None \<Rightarrow> []
        | Some sc \<Rightarrow> [''Scam check: '' @ toUpperCase (riskLevelText (riskLevel sc)) @ '' ''
                       @ EM_DASH @ '' '' @ join '', '' (checks sc)])
     @ (case cyclicSignal d of
          None \<Rightarrow> []
        | Some cs \<Rightarrow> [''Cyclic signal: '' @ numberToString rt (alignment cs)
                       @ ''% alignment in '' @ window cs @ '' window''])"

definition failedStages :: "TradeDecision \<Rightarrow> PredictionStage list" where
  "failedStages d = filter (\<lambda>s. \<not> passed s) (predictionStages d)"

definition tradeAlternatives :: "runtime \<Rightarrow> TradeDecision \<Rightarrow> Alternative list" where
  "tradeAlternatives rt d =
     (if tradeApproved d then
        [\<lparr>alt_action = ''Reject trade'',
          reasonRejected = ''All prediction stages passed and scam check is clean''\<rparr>,
         \<lparr>alt_action = ''Wait for more confirmations'',
          reasonRejected = ''Confidence at '' @ numberToString rt (trade_confidence d) @ ''%, all ''
            @ numberToString rt (ofLength (length (predictionStages d))) @ '' stages confirmed''\<rparr>]
      else
        [\<lparr>alt_action = ''Execute '' @ tradeActionText (trade_action d) @ '' anyway'',
          reasonRejected =
            (if length (failedStages d) > 0
             then numberToString rt (ofLength (length (failedStages d)))
                  @ '' prediction stage(s) failed: '' @ join '', '' (map stage_name (failedStages d))
             else ''Scam check flagged this token'')\<rparr>])"

definition tradeDataSources :: "runtime \<Rightarrow> (nat \<Rightarrow> number) \<Rightarrow> TradeDecision \<Rightarrow> DataSource list" where
  "tradeDataSources rt clk d =
     [\<lparr>ds_name = ''Multi-Stage Prediction Gate'', ds_type = ''internal'',
       queriedAt = toISOString rt (clk 1),
       summary = numberToString rt (ofLength (length (filter passed (predictionStages d)))) @ ''/''
         @ numberToString rt (ofLength (length (predictionStages d))) @ '' stages passed''\<rparr>]
     @ (case scamCheck d of
          None \<Rightarrow> []
        | Some sc \<Rightarrow> [\<lparr>ds_name = ''Scam & Liquidity Defense'', ds_type = ''internal'',
                        queriedAt = toISOString rt (clk 2),
                        summary = ''Risk level: '' @ riskLevelText (riskLevel sc)\<rparr>])
     @ (case cyclicSignal d of
          None \<Rightarrow> []
        | Some cs \<Rightarrow> [\<lparr>ds_name = ''Cyclic Signal Layer'', ds_type = ''internal'',
                        queriedAt = toISOString rt (clk (if scamCheck d = None then 2 else 3)),
                        summary = numberToString rt (alignment cs) @ ''% alignment in ''
                          @ window cs\<rparr>])"

definition tradeLogic :: "runtime \<Rightarrow> TradeDecision \<Rightarrow> string" where
  "tradeLogic rt d =
     (if tradeApproved d then
        ''All '' @ numberToString rt (ofLength (length (predictionStages d)))
        @ '' prediction stages passed. ''
        @ (if scamSafe d then ''Scam check clean. '' else [])
        @ ''Confidence: '' @ numberToString rt (trade_confidence d) @ ''%. Trade approved.''
      else
        ''Trade blocked by safety gate. ''
        @ (if list_ex (\<lambda>s. \<not> passed s) (predictionStages d)
           then ''Failed stages: '' @ join '', '' (map stage_name (failedStages d)) @ ''. ''
           else [])
        @ (if \<not> scamSafe d
           then (case scamCheck d of
                   Some sc \<Rightarrow> ''Scam check: '' @ riskLevelText (riskLevel sc) @ ''. ''
                 | None \<Rightarrow> [])
           else [])
        @ ''No override allowed.'')"

text \<open>
  In \<open>tradeLogic\<close> the scam check is read only when \<open>scamSafe\<close> is false, which needs a scam
  check to be there: the branch \<open>None\<close> of that \<open>case\<close> is never taken.
\<close>

text \<open>
  The builder. Its reads of the wall clock are the parameter \<open>clk\<close>: \<open>clk 0\<close> is
  \<^verbatim>\<open>Date.now()\<close> for the timestamp, \<open>clk 1\<close>, \<open>clk 2\<close>, \<open>clk 3\<close> are the \<^verbatim>\<open>new Date()\<close> of
  the data sources in the order they are evaluated.
\<close>

definition createTradeReasoningTrace ::
    "runtime \<Rightarrow> (nat \<Rightarrow> number) \<Rightarrow> TradeDecision \<Rightarrow> ReasoningTrace" where
  "createTradeReasoningTrace rt clk d =
     \<lparr>version = SOLPRISM_SCHEMA_VERSION,
      agent = ''AgentShield'',
      timestamp = clk 0,
      action =
        \<lparr>action_type = (if tradeApproved d then ''trade'' else ''rejection''),
         action_description =
           (if tradeApproved d
            then ''APPROVED: '' @ tradeActionText (trade_action d) @ '' ''
                 @ numberToString rt (amount d) @ '' of '' @ take 8 (tokenMint d) @ ''...''
            else ''REJECTED: '' @ tradeActionText (trade_action d) @ '' blocked by safety gate''),
         transactionSignature = None\<rparr>,
      inputs =
        \<lparr>dataSources = tradeDataSources rt clk d,
         inputs_context = ''AgentShield multi-stage safety gate evaluation''\<rparr>,
      analysis =
        \<lparr>observations = tradeObservations rt d,
         logic = tradeLogic rt d,
         alternativesConsidered = tradeAlternatives rt d\<rparr>,
      decision =
        \<lparr>actionChosen =
           (if tradeApproved d
            then tradeActionText (trade_action d) @ '' '' @ numberToString rt (amount d)
            else ''REJECT '' @ EM_DASH @ '' trade blocked''),
         confidence = trade_confidence d,
         riskAssessment =
           (if tradeApproved d
            then (if num_ge (trade_confidence d) (Finite 80) then ''low'' else ''moderate'')
            else ''high''),
         expectedOutcome =
           (if tradeApproved d
            then ''Execute '' @ tradeActionText (trade_action d) @ '' with ''
                 @ numberToString rt (trade_confidence d) @ ''% confidence''
            else ''Trade rejected, funds protected'')\<rparr>,
      metadata = Some
        \<lparr>model = None, sessionId = None, executionTimeMs = None,
         custom = Some
           [(''stagesPassed'', SNumber (ofLength (length (filter passed (predictionStages d))))),
            (''totalStages'', SNumber (ofLength (length (predictionStages d)))),
            (''scamRisk'', SString (case scamCheck d of
                                     None \<Rightarrow> ''unchecked''
                                   | Some sc \<Rightarrow> riskLevelText (riskLevel sc))),
            (''approved'', SBoolean (tradeApproved d))]\<rparr>\<rparr>"

subsection \<open>createFirewallTrace\<close>

definition firewallObservations :: "FirewallParams \<Rightarrow> string list" where
  "firewallObservations p =
     [''Transaction type: '' @ transactionType p,
      ''Simulation: '' @ (if simulated p
                          then (if simulationPassed p then CHECK_MARK @ '' PASS''
                                else CROSS_MARK @ '' FAIL'')
                          else SKIP_MARK @ '' SKIPPED''),
      ''Spend limit: '' @ (if spendLimitOk p then CHECK_MARK @ '' OK'' else CROSS_MARK @ '' EXCEEDED''),
      ''Slippage: '' @ (if slippageOk p then CHECK_MARK @ '' OK'' else CROSS_MARK @ '' EXCEEDED''),
      ''Program allowlist: '' @ (if programAllowed p then CHECK_MARK @ '' ALLOWED''
                                 else CROSS_MARK @ '' BLOCKED'')]"

text \<open>\<open>clk 0\<close> is \<^verbatim>\<open>Date.now()\<close>, \<open>clk 1\<close> the \<^verbatim>\<open>new Date()\<close> of the data source.\<close>

definition createFirewallTrace ::
    "runtime \<Rightarrow> (nat \<Rightarrow> number) \<Rightarrow> FirewallParams \<Rightarrow> ReasoningTrace" where
  "createFirewallTrace rt clk p =
     \<lparr>version = SOLPRISM_SCHEMA_VERSION,
      agent = ''AgentShield'',
      timestamp = clk 0,
      action =
        \<lparr>action_type = (if approved p then ''firewall_allow'' else ''firewall_deny''),
         action_description =
           (if approved p then ''Firewall ALLOW: '' @ transactionType p
            else ''Firewall DENY: '' @ transactionType p @ '' '' @ EM_DASH @ '' '' @ reason p),
         transactionSignature = None\<rparr>,
      inputs =
        \<lparr>dataSources =
           [\<lparr>ds_name = ''Transaction Firewall'', ds_type = ''internal'',
             queriedAt = toISOString rt (clk 1), summary = reason p\<rparr>],
         inputs_context = ''AgentShield transaction firewall evaluation''\<rparr>,
      analysis =
        \<lparr>observations = firewallObservations p,
         logic = reason p,
         alternativesConsidered =
           (if approved p
            then [\<lparr>alt_action = ''Block transaction'',
                   reasonRejected = ''All firewall checks passed''\<rparr>]
            else [\<lparr>alt_action = ''Allow transaction'', reasonRejected = reason p\<rparr>])\<rparr>,
      decision =
        \<lparr>actionChosen = (if approved p then ''ALLOW'' else ''DENY''),
         confidence = (if approved p then Finite 90 else Finite 95),
         riskAssessment = (if approved p then ''low'' else ''high''),
         expectedOutcome =
           (if approved p then ''Transaction executed safely''
            else ''Transaction blocked, funds protected'')\<rparr>,
      metadata = None\<rparr>"

section \<open>Commitment manager\<close>

text \<open>
  The manager keeps an array of commitment results, hands out a copy of that array, and
  stores the very trace object it was given. Arrays and objects are therefore cells of a
  heap, named by their address, so that two references to one object are one address. The
  heap only grows: a new object takes the next address. The console is the list of the
  lines written so far.
\<close>

type_synonym addr = nat

record CommitmentResult =
  hash :: string
  trace :: addr
  commit_timestamp :: number

datatype cell =
    TraceCell ReasoningTrace
  | CommitmentCell CommitmentResult
  | ArrayCell "addr list"

record world =
  heap :: "cell list"
  console :: "string list"

definition cellAt :: "world \<Rightarrow> addr \<Rightarrow> cell option" where
  "cellAt w a = (if a < length (heap w) then Some (heap w ! a) else None)"

definition alloc :: "cell \<Rightarrow> world \<Rightarrow> addr \<times> world" where
  "alloc c w = (length (heap w), w\<lparr>heap := heap w @ [c]\<rparr>)"

definition assign :: "addr \<Rightarrow> cell \<Rightarrow> world \<Rightarrow> world" where
  "assign a c w = w\<lparr>heap := (heap w)[a := c]\<rparr>"

definition console_log :: "string \<Rightarrow> world \<Rightarrow> world" where
  "console_log line w = w\<lparr>console := console w @ [line]\<rparr>"

text \<open>
  An instance of \<^verbatim>\<open>SolprismShield\<close>: its two private fields. Neither is ever assigned
  after the constructor; \<open>commitments\<close> is the address of the array.
\<close>

record SolprismShield =
  agentName :: string
  commitments :: addr

text \<open>
  The constructor, on the \<^verbatim>\<open>agentName\<close> of its configuration (absent, or a string). The
  empty string is falsy for \<^verbatim>\<open>||\<close>.
\<close>

definition new_SolprismShield :: "string option \<Rightarrow> world \<Rightarrow> SolprismShield \<times> world" where
  "new_SolprismShield config_agentName w =
     (let (a, w1) = alloc (ArrayCell []) w
      in (\<lparr>agentName = (case config_agentName of
                           None \<Rightarrow> ''AgentShield''
                         | Some n \<Rightarrow> if n = [] then ''AgentShield'' else n),
           commitments = a\<rparr>, w1))"

text \<open>
  The methods take the world and return their result with the new world. A reference that
  does not hold an object of its declared type gives \<open>None\<close>; the type checker of the
  source excludes it. \<open>now\<close> is the reading of \<^verbatim>\<open>Date.now()\<close>.
\<close>

definition commit ::
    "runtime \<Rightarrow> number \<Rightarrow> SolprismShield \<Rightarrow> addr \<Rightarrow> world \<Rightarrow> (addr \<times> world) option" where
  "commit rt now this tr w =
     (case cellAt w tr of
        Some (TraceCell t) \<Rightarrow>
          (case cellAt w (commitments this) of
             Some (ArrayCell xs) \<Rightarrow>
               (let h = hashTrace rt (traceObject t);
                    (result, w1) = alloc (CommitmentCell
                                     \<lparr>hash = h, trace = tr, commit_timestamp = now\<rparr>) w;
                    w2 = assign (commitments this) (ArrayCell (xs @ [result])) w1;
                    w3 = console_log
                           (''[SOLPRISM] '' @ SHIELD_MARK @ '' Reasoning committed: ''
                            @ action_type (action t) @ '' | ''
                            @ ''decision='' @ actionChosen (decision t) @ '' | ''
                            @ ''confidence='' @ numberToString rt (confidence (decision t)) @ ''% | ''
                            @ ''hash='' @ take 16 h @ ''...'') w2
                in Some (result, w3))
           | _ \<Rightarrow> None)
      | _ \<Rightarrow> None)"

definition verify ::
    "runtime \<Rightarrow> string \<Rightarrow> addr \<Rightarrow> world \<Rightarrow> (bool \<times> world) option" where
  "verify rt h tr w =
     (case cellAt w tr of
        Some (TraceCell t) \<Rightarrow>
          (let computedHash = hashTrace rt (traceObject t);
               valid = (computedHash = h);
               w1 = console_log
                      (''[SOLPRISM] '' @ (if valid then CHECK_MARK else CROSS_MARK)
                       @ '' Verification: '' @ (if valid then ''MATCH'' else ''MISMATCH'')) w
           in Some (valid, w1))
      | _ \<Rightarrow> None)"

text \<open>\<^verbatim>\<open>[...this.commitments]\<close>: a new array with the same elements.\<close>

definition getCommitments :: "SolprismShield \<Rightarrow> world \<Rightarrow> (addr \<times> world) option" where
  "getCommitments this w =
     (case cellAt w (commitments this) of
        Some (ArrayCell xs) \<Rightarrow> Some (alloc (ArrayCell xs) w)
      | _ \<Rightarrow> None)"

definition commitTradeDecision ::
    "runtime \<Rightarrow> (nat \<Rightarrow> number) \<Rightarrow> number \<Rightarrow> SolprismShield \<Rightarrow> TradeDecision \<Rightarrow> world
      \<Rightarrow> (addr \<times> world) option" where
  "commitTradeDecision rt clk now this d w =
     (let (tr, w1) = alloc (TraceCell (createTradeReasoningTrace rt clk d)) w
      in commit rt now this tr w1)"

definition commitFirewallDecision ::
    "runtime \<Rightarrow> (nat \<Rightarrow> number) \<Rightarrow> number \<Rightarrow> SolprismShield \<Rightarrow> FirewallParams \<Rightarrow> world
      \<Rightarrow> (addr \<times> world) option" where
  "commitFirewallDecision rt clk now this p w =
     (let (tr, w1) = alloc (TraceCell (createFirewallTrace rt clk p)) w
      in commit rt now this tr w1)"

subsection \<open>Sequences of calls on one manager\<close>

datatype call =
    Commit number addr
  | Verify string addr
  | GetCommitments
  | CommitTradeDecision "nat \<Rightarrow> number" number TradeDecision
  | CommitFirewallDecision "nat \<Rightarrow> number" number FirewallParams

datatype outcome = Committed addr | Verified bool | Snapshot addr

fun perform :: "runtime \<Rightarrow> SolprismShield \<Rightarrow> call \<Rightarrow> world \<Rightarrow> (outcome \<times> world) option" where
  "perform rt this (Commit now tr) w = map_option (map_prod Committed id) (commit rt now this tr w)"
| "perform rt this (Verify h tr) w = map_option (map_prod Verified id) (verify rt h tr w)"
| "perform rt this GetCommitments w = map_option (map_prod Snapshot id) (getCommitments this w)"
| "perform rt this (CommitTradeDecision clk now d) w =
     map_option (map_prod Committed id) (commitTradeDecision rt clk now this d w)"
| "perform rt this (CommitFirewallDecision clk now p) w =
     map_option (map_prod Committed id) (commitFirewallDecision rt clk now this p w)"

fun run :: "runtime \<Rightarrow> SolprismShield \<Rightarrow> call list \<Rightarrow> world \<Rightarrow> (outcome list \<times> world) option" where
  "run rt this [] w = Some ([], w)"
| "run rt this (c # cs) w =
     (case perform rt this c w of
        None \<Rightarrow> None
      | Some (out, w1) \<Rightarrow>
          (case run rt this cs w1 of
             None \<Rightarrow> None
           | Some (outs, w2) \<Rightarrow> Some (out # outs, w2)))"

text \<open>The calls that commit, and the commitment results among the outcomes, in call order.\<close>

fun commits :: "call \<Rightarrow> bool" where
  "commits (Commit now tr) = True"
| "commits (Verify h tr) = False"
| "commits GetCommitments = False"
| "commits (CommitTradeDecision clk now d) = True"
| "commits (CommitFirewallDecision clk now p) = True"

fun committed :: "outcome list \<Rightarrow> addr list" where
  "committed [] = []"
| "committed (Committed r # outs) = r # committed outs"
| "committed (Verified b # outs) = committed outs"
| "committed (Snapshot a # outs) = committed outs"

text \<open>A call is well typed in a world when the trace it is given is a trace object there.\<close>

fun wellTyped :: "world \<Rightarrow> call \<Rightarrow> bool" where
  "wellTyped w (Commit now tr) = (case cellAt w tr of Some (TraceCell t) \<Rightarrow> True | _ \<Rightarrow> False)"
| "wellTyped w (Verify h tr) = (case cellAt w tr of Some (TraceCell t) \<Rightarrow> True | _ \<Rightarrow> False)"
| "wellTyped w GetCommitments = True"
| "wellTyped w (CommitTradeDecision clk now d) = True"
| "wellTyped w (CommitFirewallDecision clk now p) = True"

text \<open>
  The history of a manager as its clients see it: the commitment results its array refers
  to, each with the trace it refers to.
\<close>

definition resultAt :: "world \<Rightarrow> addr \<Rightarrow> (CommitmentResult \<times> ReasoningTrace) option" where
  "resultAt w r =
     (case cellAt w r of
        Some (CommitmentCell c) \<Rightarrow>
          (case cellAt w (trace c) of
             Some (TraceCell t) \<Rightarrow> Some (c, t)
           | _ \<Rightarrow> None)
      | _ \<Rightarrow> None)"

definition history :: "SolprismShield \<Rightarrow> world \<Rightarrow> (CommitmentResult \<times> ReasoningTrace) option list option" where
  "history this w =
     (case cellAt w (commitments this) of
        Some (ArrayCell xs) \<Rightarrow> Some (map (resultAt w) xs)
      | _ \<Rightarrow> None)"

section \<open>Sample data\<close>

text \<open>
  A runtime to evaluate examples with: decimal notation for the natural numbers, the text
  itself in the place of its digest (an example then shows the canonical text), and a fixed
  date string. The theorems below hold for every runtime.
\<close>

fun decimal :: "nat \<Rightarrow> string" where
  "decimal n = (if n < 10 then [''0123456789'' ! n]
                else decimal (n div 10) @ [''0123456789'' ! (n mod 10)])"

definition sample_numberToString :: "number \<Rightarrow> string" where
  "sample_numberToString n =
     (case n of
        Finite x \<Rightarrow> (if 0 \<le> x \<and> x = real (nat \<lfloor>x\<rfloor>) then decimal (nat \<lfloor>x\<rfloor>) else ''?'')
      | NaN \<Rightarrow> ''NaN''
      | PosInfinity \<Rightarrow> ''Infinity''
      | NegInfinity \<Rightarrow> ''-Infinity'')"

definition sample_digest :: "string \<Rightarrow> string" where
  "sample_digest s = s"

definition sample_date :: "number \<Rightarrow> string" where
  "sample_date n = ''2026-01-01T00:00:00.000Z''"

definition sample_runtime :: runtime where
  "sample_runtime =
     \<lparr>sha256hex = sample_digest, numberToString = sample_numberToString,
      toISOString = sample_date\<rparr>"

definition sample_clock :: "nat \<Rightarrow> number" where
  "sample_clock i = Finite 1767225600000"

text \<open>
  The decision of the usage example of the module: three stages that passed, a scam check
  that is safe, confidence 82. \<open>failed_decision\<close> is the same decision with its second
  stage failed, \<open>scam_decision\<close> the same with the token flagged as a scam.
\<close>

definition sample_stages :: "PredictionStage list" where
  "sample_stages =
     [\<lparr>stage_name = ''10min-confirm'', passed = True, stage_confidence = Finite 85,
       stage_reason = ''Uptrend confirmed''\<rparr>,
      \<lparr>stage_name = ''5min-validate'', passed = True, stage_confidence = Finite 78,
       stage_reason = ''Secondary signal holds''\<rparr>,
      \<lparr>stage_name = ''10min-final'', passed = True, stage_confidence = Finite 82,
       stage_reason = ''Third window passed''\<rparr>]"

definition sample_scamCheck :: ScamCheckResult where
  "sample_scamCheck =
     \<lparr>scam_tokenMint = ''...'', isScam = False, checks = [''liquidity'', ''holders''],
      riskLevel = safe\<rparr>"

definition sample_decision :: TradeDecision where
  "sample_decision =
     \<lparr>tokenMint = ''So11111111111111111111111111111111111111112'',
      trade_action = buy,
      amount = Finite 1.5,
      predictionStages = sample_stages,
      scamCheck = Some sample_scamCheck,
      cyclicSignal = None,
      trade_confidence = Finite 82\<rparr>"

definition failed_decision :: TradeDecision where
  "failed_decision =
     sample_decision\<lparr>predictionStages :=
       [sample_stages ! 0, (sample_stages ! 1)\<lparr>passed := False\<rparr>, sample_stages ! 2]\<rparr>"

definition scam_decision :: TradeDecision where
  "scam_decision =
     sample_decision\<lparr>scamCheck := Some (sample_scamCheck\<lparr>isScam := True, riskLevel := dangerous\<rparr>)\<rparr>"

definition cautious_decision :: TradeDecision where
  "cautious_decision = sample_decision\<lparr>trade_confidence := Finite 79\<rparr>"

definition sample_params :: FirewallParams where
  "sample_params =
     \<lparr>transactionType = ''swap'', simulated = True, simulationPassed = True,
      spendLimitOk = True, slippageOk = True, programAllowed = True, approved = True,
      reason = ''All firewall checks passed''\<rparr>"

definition denied_params :: FirewallParams where
  "denied_params =
     sample_params\<lparr>simulated := False, spendLimitOk := False, programAllowed := False,
       approved := False, reason := ''Spend limit exceeded''\<rparr>"

definition failed_params :: FirewallParams where
  "failed_params =
     sample_params\<lparr>simulationPassed := False, slippageOk := False, approved := False,
       reason := ''Simulation failed''\<rparr>"

definition sample_trace :: ReasoningTrace where
  "sample_trace = createTradeReasoningTrace sample_runtime sample_clock sample_decision"

text \<open>The sample trace with one leaf changed: the confidence of its decision.\<close>

definition tampered_trace :: ReasoningTrace where
  "tampered_trace = sample_trace\<lparr>decision := (decision sample_trace)\<lparr>confidence := Finite 10\<rparr>\<rparr>"

text \<open>
  A world with the sample trace at address 0 and a copy of it, tampered with, at address 1;
  a manager made in it, whose array is at address 2.
\<close>

definition sample_world :: world where
  "sample_world = \<lparr>heap = [TraceCell sample_trace, TraceCell tampered_trace], console = []\<rparr>"

definition sample_shield :: SolprismShield where
  "sample_shield = fst (new_SolprismShield (Some ''my-agent-shield'') sample_world)"

definition shield_world :: world where
  "shield_world = snd (new_SolprismShield (Some ''my-agent-shield'') sample_world)"

section \<open>Notions used by the properties\<close>

text \<open>
  The sorted top-level keys of a trace that has metadata; without metadata the key
  \<open>metadata\<close> is missing from the list.
\<close>

definition traceKeys :: "string list" where
  "traceKeys = [''action'', ''agent'', ''analysis'', ''decision'', ''inputs'', ''metadata'',
                ''timestamp'', ''version'']"

text \<open>
  Two runtime values have the same content when they differ at most in the insertion order
  of the keys of their objects, at any depth: objects have the same keys (each once) with
  values of the same content, arrays have the same length with elements of the same content
  at each index, and other values are equal.
\<close>

fun same_content :: "jsval \<Rightarrow> jsval \<Rightarrow> bool" where
  "same_content (JObj ps) (JObj qs) =
     (distinct (map fst ps) \<and> distinct (map fst qs) \<and> set (map fst ps) = set (map fst qs) \<and>
      (\<forall>(k, v) \<in> set ps. case map_of qs k of None \<Rightarrow> False | Some w \<Rightarrow> same_content v w))"
| "same_content (JArr xs) (JArr ys) = list_all2 same_content xs ys"
| "same_content v w = (v = w)"

text \<open>
  The approval of a trade decision in the words of the specification: every prediction
  stage has passed, and no scam check was supplied or its \<open>isScam\<close> is false.
\<close>

definition approvedBySpec :: "TradeDecision \<Rightarrow> bool" where
  "approvedBySpec d =
     ((\<forall>s \<in> set (predictionStages d). passed s = True) \<and>
      (scamCheck d = None \<or> (\<exists>sc. scamCheck d = Some sc \<and> isScam sc = False)))"

text \<open>The value of a key of the custom metadata of a trace, when the trace has it.\<close>

definition customField :: "ReasoningTrace \<Rightarrow> string \<Rightarrow> scalar option" where
  "customField t k =
     (case metadata t of
        None \<Rightarrow> None
      | Some m \<Rightarrow> (case custom m of None \<Rightarrow> None | Some c \<Rightarrow> map_of c k))"

text \<open>
  Two orders of construction of one small trace-like object: the keys are inserted in a
  different order at the top level and inside \<open>action\<close> and \<open>decision\<close>.
\<close>

definition built_one_way :: jsobject where
  "built_one_way =
     [(''version'', JStr ''1.0.0''),
      (''agent'', JStr ''AgentShield''),
      (''timestamp'', JNum (Finite 1767225600000)),
      (''action'', JObj [(''type'', JStr ''trade''), (''description'', JStr ''APPROVED'')]),
      (''decision'', JObj [(''actionChosen'', JStr ''buy 2''), (''confidence'', JNum (Finite 82))])]"

definition built_other_way :: jsobject where
  "built_other_way =
     [(''decision'', JObj [(''confidence'', JNum (Finite 82)), (''actionChosen'', JStr ''buy 2'')]),
      (''timestamp'', JNum (Finite 1767225600000)),
      (''action'', JObj [(''description'', JStr ''APPROVED''), (''type'', JStr ''trade'')]),
      (''agent'', JStr ''AgentShield''),
      (''version'', JStr ''1.0.0'')]"

text \<open>
  \<open>extends_except a w w'\<close>: the heap of \<open>w'\<close> has every object of the heap of \<open>w\<close>, unchanged,
  but for the one at address \<open>a\<close>; it may have new objects.
\<close>

definition extends_except :: "addr \<Rightarrow> world \<Rightarrow> world \<Rightarrow> bool" where
  "extends_except a w w' =
     (length (heap w) \<le> length (heap w') \<and>
      (\<forall>b < length (heap w). b \<noteq> a \<longrightarrow> heap w' ! b = heap w ! b))"

text \<open>
  What the history must show for a call \<^verbatim>\<open>commit(tr)\<close> made at time \<open>now\<close>, the trace being
  read in the world before the call.
\<close>

fun expectedResult ::
    "runtime \<Rightarrow> world \<Rightarrow> number \<times> addr \<Rightarrow> (CommitmentResult \<times> ReasoningTrace) option" where
  "expectedResult rt w (now, tr) =
     (case cellAt w tr of
        Some (TraceCell t) \<Rightarrow>
          Some (\<lparr>hash = hashTrace rt (traceObject t), trace = tr, commit_timestamp = now\<rparr>, t)
      | _ \<Rightarrow> None)"

text \<open>
  A session on the sample manager: the sample trace is committed, and the history is asked
  for. \<open>forged_result\<close> is the commitment result of the first step with another hash.
\<close>

definition committed_world :: world where
  "committed_world =
     (case commit sample_runtime (Finite 1767225600001) sample_shield 0 shield_world of
        Some (r, w) \<Rightarrow> w
      | None \<Rightarrow> shield_world)"

definition audited_world :: world where
  "audited_world =
     (case getCommitments sample_shield committed_world of
        Some (a, w) \<Rightarrow> w
      | None \<Rightarrow> committed_world)"

definition forged_result :: CommitmentResult where
  "forged_result = \<lparr>hash = ''forged'', trace = 0, commit_timestamp = Finite 1767225600001\<rparr>"

definition sample_calls :: "call list" where
  "sample_calls =
     [Commit (Finite 1767225600001) 0,
      GetCommitments,
      CommitFirewallDecision sample_clock (Finite 1767225600002) sample_params,
      Verify ''0000'' 1,
      Commit (Finite 1767225600003) 1]"

section \<open>Properties of the canonical text\<close>

subsection \<open>Objects whose keys are not in the property list\<close>

lemma map_of_serialized:
  "map_of (map (\<lambda>(k, v). (k, f v)) ps) P = map_option f (map_of ps P)"
  by (induction ps) auto

lemma no_listed_key:
  assumes "set K \<inter> set (Object_keys ps) = {}"
  shows "serializeJSONProperty rt K (JObj ps) = Some ''{}''"
proof -
  have "map_of (map (\<lambda>(k, v). (k, serializeJSONProperty rt K v)) ps) P = None" if "P \<in> set K" for P
    using that assms by (force simp: map_of_eq_None_iff Object_keys_def)
  then have "concat (map (\<lambda>P. case map_of (map (\<lambda>(k, v). (k, serializeJSONProperty rt K v)) ps) P of
                                  Some (Some strP) \<Rightarrow> [quoteJSONString P @ '':'' @ strP]
                                | _ \<Rightarrow> []) K) = []"
    by simp
  then show ?thesis by (simp add: serializeJSONObject_def)
qed

lemma no_listed_key_between:
  "set K \<subseteq> A \<Longrightarrow> set (Object_keys ps) \<subseteq> B \<Longrightarrow> A \<inter> B = {}
    \<Longrightarrow> serializeJSONProperty rt K (JObj ps) = Some ''{}''"
  by (rule no_listed_key) auto

lemma keys_optionalProperty: "set (Object_keys (optionalProperty k f x)) \<subseteq> {k}"
  by (cases x) (simp_all add: optionalProperty_def Object_keys_def)

lemma keys_actionObject:
  "set (Object_keys (actionObject a)) \<subseteq> {''type'', ''description'', ''transactionSignature''}"
  using keys_optionalProperty [of "''transactionSignature''" JStr "transactionSignature a"]
  by (auto simp: actionObject_def Object_keys_def)

lemma keys_inputsObject:
  "set (Object_keys (inputsObject i)) \<subseteq> {''dataSources'', ''context''}"
  by (simp add: inputsObject_def Object_keys_def)

lemma keys_analysisObject:
  "set (Object_keys (analysisObject an)) \<subseteq> {''observations'', ''logic'', ''alternativesConsidered''}"
  by (simp add: analysisObject_def Object_keys_def)

lemma keys_decisionObject:
  "set (Object_keys (decisionObject d))
    \<subseteq> {''actionChosen'', ''confidence'', ''riskAssessment'', ''expectedOutcome''}"
  by (simp add: decisionObject_def Object_keys_def)

lemma keys_metadataObject:
  "set (Object_keys (metadataObject m)) \<subseteq> {''model'', ''sessionId'', ''executionTimeMs'', ''custom''}"
  by (cases "model m"; cases "sessionId m"; cases "executionTimeMs m"; cases "custom m")
     (simp_all add: metadataObject_def optionalProperty_def Object_keys_def)

text \<open>
  None of the keys of a nested object of a trace is a top-level key, so with the top-level
  keys as property list every nested object is written \<^verbatim>\<open>{}\<close>.
\<close>

lemma nested_objects_empty:
  assumes "set K \<subseteq> set traceKeys"
  shows "serializeJSONProperty rt K (JObj (actionObject a)) = Some ''{}''"
    and "serializeJSONProperty rt K (JObj (inputsObject i)) = Some ''{}''"
    and "serializeJSONProperty rt K (JObj (analysisObject an)) = Some ''{}''"
    and "serializeJSONProperty rt K (JObj (decisionObject d)) = Some ''{}''"
    and "serializeJSONProperty rt K (JObj (metadataObject m)) = Some ''{}''"
proof -
  show "serializeJSONProperty rt K (JObj (actionObject a)) = Some ''{}''"
    by (rule no_listed_key_between [OF assms keys_actionObject]) (simp add: traceKeys_def)
  show "serializeJSONProperty rt K (JObj (inputsObject i)) = Some ''{}''"
    by (rule no_listed_key_between [OF assms keys_inputsObject]) (simp add: traceKeys_def)
  show "serializeJSONProperty rt K (JObj (analysisObject an)) = Some ''{}''"
    by (rule no_listed_key_between [OF assms keys_analysisObject]) (simp add: traceKeys_def)
  show "serializeJSONProperty rt K (JObj (decisionObject d)) = Some ''{}''"
    by (rule no_listed_key_between [OF assms keys_decisionObject]) (simp add: traceKeys_def)
  show "serializeJSONProperty rt K (JObj (metadataObject m)) = Some ''{}''"
    by (rule no_listed_key_between [OF assms keys_metadataObject]) (simp add: traceKeys_def)
qed

subsection \<open>The canonical text of a typed trace\<close>

lemma sorted_keys_traceObject:
  "sort (Object_keys (traceObject t)) =
     (if metadata t = None then remove1 ''metadata'' traceKeys else traceKeys)"
  by (simp add: traceObject_def Object_keys_def optionalProperty_def traceKeys_def
      split: option.splits)

lemma propertyList_traceKeys: "propertyList traceKeys = traceKeys"
  by (simp add: propertyList_def traceKeys_def)

lemma propertyList_traceKeys_no_metadata:
  "propertyList (remove1 ''metadata'' traceKeys) = remove1 ''metadata'' traceKeys"
  by (simp add: propertyList_def traceKeys_def)

lemma props_traceObject:
  assumes "set K \<subseteq> set traceKeys"
  shows "map (\<lambda>(k, v). (k, serializeJSONProperty rt K v)) (traceObject t) =
     [(''version'', Some (quoteJSONString (version t))),
      (''agent'', Some (quoteJSONString (agent t))),
      (''timestamp'', Some (if isFinite (timestamp t) then numberToString rt (timestamp t)
                            else ''null'')),
      (''action'', Some ''{}''), (''inputs'', Some ''{}''), (''analysis'', Some ''{}''),
      (''decision'', Some ''{}'')]
     @ (if metadata t = None then [] else [(''metadata'', Some ''{}'')])"
  by (cases "metadata t")
     (simp_all add: traceObject_def optionalProperty_def nested_objects_empty [OF assms]
        del: serializeJSONProperty.simps(7))

text \<open>
  The text that is hashed: of a trace it holds the version, the agent, the timestamp and
  whether there is metadata, and nothing else.
\<close>

lemma canonical_traceObject:
  "JSON_stringify rt (sort (Object_keys (traceObject t))) (traceObject t) =
     ''{'' @ quoteJSONString ''action'' @ '':{},''
     @ quoteJSONString ''agent'' @ '':'' @ quoteJSONString (agent t) @ '',''
     @ quoteJSONString ''analysis'' @ '':{},''
     @ quoteJSONString ''decision'' @ '':{},''
     @ quoteJSONString ''inputs'' @ '':{},''
     @ (if metadata t = None then [] else quoteJSONString ''metadata'' @ '':{},'')
     @ quoteJSONString ''timestamp'' @ '':''
     @ (if isFinite (timestamp t) then numberToString rt (timestamp t) else ''null'') @ '',''
     @ quoteJSONString ''version'' @ '':'' @ quoteJSONString (version t) @ ''}''"
proof (cases "metadata t = None")
  case True
  let ?K = "remove1 ''metadata'' traceKeys"
  have sub: "set ?K \<subseteq> set traceKeys" by (simp add: traceKeys_def)
  have "JSON_stringify rt (sort (Object_keys (traceObject t))) (traceObject t)
      = serializeJSONObject ?K (map (\<lambda>(k, v). (k, serializeJSONProperty rt ?K v)) (traceObject t))"
    using True
    by (simp only: JSON_stringify_def sorted_keys_traceObject propertyList_traceKeys_no_metadata
        simp_thms if_True)
  also have "\<dots> = serializeJSONObject ?K
     [(''version'', Some (quoteJSONString (version t))),
      (''agent'', Some (quoteJSONString (agent t))),
      (''timestamp'', Some (if isFinite (timestamp t) then numberToString rt (timestamp t)
                            else ''null'')),
      (''action'', Some ''{}''), (''inputs'', Some ''{}''), (''analysis'', Some ''{}''),
      (''decision'', Some ''{}'')]"
    using True by (simp only: props_traceObject [OF sub] simp_thms if_True append_Nil2)
  also have "\<dots> = ''{'' @ quoteJSONString ''action'' @ '':{},''
     @ quoteJSONString ''agent'' @ '':'' @ quoteJSONString (agent t) @ '',''
     @ quoteJSONString ''analysis'' @ '':{},''
     @ quoteJSONString ''decision'' @ '':{},''
     @ quoteJSONString ''inputs'' @ '':{},''
     @ quoteJSONString ''timestamp'' @ '':''
     @ (if isFinite (timestamp t) then numberToString rt (timestamp t) else ''null'') @ '',''
     @ quoteJSONString ''version'' @ '':'' @ quoteJSONString (version t) @ ''}''"
    by (simp add: traceKeys_def serializeJSONObject_def)
  finally show ?thesis using True by simp
next
  case False
  have sub: "set traceKeys \<subseteq> set traceKeys" by simp
  have "JSON_stringify rt (sort (Object_keys (traceObject t))) (traceObject t)
      = serializeJSONObject traceKeys
          (map (\<lambda>(k, v). (k, serializeJSONProperty rt traceKeys v)) (traceObject t))"
    using False
    by (simp only: JSON_stringify_def sorted_keys_traceObject propertyList_traceKeys
        simp_thms if_False)
  also have "\<dots> = serializeJSONObject traceKeys
     [(''version'', Some (quoteJSONString (version t))),
      (''agent'', Some (quoteJSONString (agent t))),
      (''timestamp'', Some (if isFinite (timestamp t) then numberToString rt (timestamp t)
                            else ''null'')),
      (''action'', Some ''{}''), (''inputs'', Some ''{}''), (''analysis'', Some ''{}''),
      (''decision'', Some ''{}''), (''metadata'', Some ''{}'')]"
    using False by (simp only: props_traceObject [OF sub] simp_thms if_False append.simps)
  also have "\<dots> = ''{'' @ quoteJSONString ''action'' @ '':{},''
     @ quoteJSONString ''agent'' @ '':'' @ quoteJSONString (agent t) @ '',''
     @ quoteJSONString ''analysis'' @ '':{},''
     @ quoteJSONString ''decision'' @ '':{},''
     @ quoteJSONString ''inputs'' @ '':{},''
     @ quoteJSONString ''metadata'' @ '':{},''
     @ quoteJSONString ''timestamp'' @ '':''
     @ (if isFinite (timestamp t) then numberToString rt (timestamp t) else ''null'') @ '',''
     @ quoteJSONString ''version'' @ '':'' @ quoteJSONString (version t) @ ''}''"
    by (simp add: traceKeys_def serializeJSONObject_def)
  finally show ?thesis using False by simp
qed

lemma hashTrace_top_level_only:
  assumes "version t1 = version t2" and "agent t1 = agent t2" and "timestamp t1 = timestamp t2"
    and "metadata t1 = None \<longleftrightarrow> metadata t2 = None"
  shows "hashTrace rt (traceObject t1) = hashTrace rt (traceObject t2)"
  unfolding hashTrace_def Let_def canonical_traceObject using assms by simp

subsection \<open>Values of the same content\<close>

lemma serialize_same_content:
  "same_content v w \<Longrightarrow> serializeJSONProperty rt K v = serializeJSONProperty rt K w"
proof (induction v w rule: same_content.induct)
  case (1 ps qs)
  let ?f = "serializeJSONProperty rt K"
  have keys: "set (map fst ps) = set (map fst qs)"
    and each: "\<forall>(k, v) \<in> set ps. case map_of qs k of None \<Rightarrow> False | Some w \<Rightarrow> same_content v w"
    using "1.prems" by simp_all
  have "map_option ?f (map_of ps P) = map_option ?f (map_of qs P)" for P
  proof (cases "map_of ps P")
    case None
    then have "P \<notin> set (map fst qs)" using keys by (simp add: map_of_eq_None_iff)
    then have "map_of qs P = None" by (simp add: map_of_eq_None_iff)
    with None show ?thesis by simp
  next
    case (Some v)
    then have mem: "(P, v) \<in> set ps" by (rule map_of_SomeD)
    with each obtain w where w: "map_of qs P = Some w" and sc: "same_content v w"
      by (fastforce split: option.splits)
    from "1.IH" [OF mem refl w sc] have "?f v = ?f w" .
    with Some w show ?thesis by simp
  qed
  then have "map_of (map (\<lambda>(k, v). (k, ?f v)) ps) = map_of (map (\<lambda>(k, v). (k, ?f v)) qs)"
    by (intro ext) (simp add: map_of_serialized)
  then show ?case by (simp add: serializeJSONObject_def)
next
  case (2 xs ys)
  from "2.prems" have "list_all2 same_content xs ys" by simp
  then have "map (serializeJSONProperty rt K) xs = map (serializeJSONProperty rt K) ys"
    using "2.IH"
  proof (induction xs ys rule: list_all2_induct)
    case Nil
    then show ?case by simp
  next
    case (Cons x xs y ys)
    then show ?case by simp
  qed
  then show ?case by simp
qed simp_all

lemma same_content_sorted_keys:
  "same_content (JObj ps) (JObj qs) \<Longrightarrow> sort (Object_keys ps) = sort (Object_keys qs)"
  by (intro sorted_distinct_set_unique) (simp_all add: Object_keys_def)

section \<open>Properties of the commitment manager\<close>

subsection \<open>What each method does to the heap\<close>

lemma cellAt_Some_iff: "cellAt w a = Some c \<longleftrightarrow> a < length (heap w) \<and> heap w ! a = c"
  by (auto simp: cellAt_def)

lemma commit_effect:
  assumes "cellAt w tr = Some (TraceCell t)"
    and "cellAt w (commitments this) = Some (ArrayCell xs)"
  shows "\<exists>w'. commit rt now this tr w = Some (length (heap w), w')
      \<and> heap w' = (heap w @ [CommitmentCell \<lparr>hash = hashTrace rt (traceObject t), trace = tr,
                                               commit_timestamp = now\<rparr>])
                  [commitments this := ArrayCell (xs @ [length (heap w)])]"
  using assms by (simp add: commit_def alloc_def assign_def console_log_def Let_def)

lemma verify_effect:
  assumes "cellAt w tr = Some (TraceCell t)"
  shows "\<exists>w'. verify rt h tr w = Some (hashTrace rt (traceObject t) = h, w') \<and> heap w' = heap w"
  using assms by (simp add: verify_def console_log_def Let_def)

lemma getCommitments_effect:
  assumes "cellAt w (commitments this) = Some (ArrayCell xs)"
  shows "getCommitments this w = Some (length (heap w), w\<lparr>heap := heap w @ [ArrayCell xs]\<rparr>)"
  using assms by (simp add: getCommitments_def alloc_def)

lemma sample_shield_simps:
  "commitments sample_shield = 2"
  "heap shield_world = [TraceCell sample_trace, TraceCell tampered_trace, ArrayCell []]"
  by (simp_all add: sample_shield_def shield_world_def new_SolprismShield_def alloc_def
      sample_world_def)

subsection \<open>The hash of a commitment\<close>

lemma commit_result:
  assumes "cellAt w tr = Some (TraceCell t)"
    and "cellAt w (commitments this) = Some (ArrayCell xs)"
  shows "\<exists>r w' c w''. commit rt now this tr w = Some (r, w')
      \<and> cellAt w' r = Some (CommitmentCell c)
      \<and> trace c = tr \<and> cellAt w' tr = Some (TraceCell t)
      \<and> hash c = hashTrace rt (traceObject t)
      \<and> hash c = sha256hex rt (JSON_stringify rt (sort (Object_keys (traceObject t)))
                                  (traceObject t))
      \<and> verify rt (hash c) (trace c) w' = Some (True, w'')"
proof -
  from assms have lt: "tr < length (heap w)" "commitments this < length (heap w)"
    and ne: "tr \<noteq> commitments this"
    by (auto simp: cellAt_Some_iff)
  let ?c = "\<lparr>hash = hashTrace rt (traceObject t), trace = tr, commit_timestamp = now\<rparr>"
  from commit_effect [OF assms, of rt now] obtain w' where
    c: "commit rt now this tr w = Some (length (heap w), w')"
    and h: "heap w' = (heap w @ [CommitmentCell ?c])
                      [commitments this := ArrayCell (xs @ [length (heap w)])]"
    by blast
  have r: "cellAt w' (length (heap w)) = Some (CommitmentCell ?c)"
    using lt by (simp add: cellAt_Some_iff h)
  have t: "cellAt w' tr = Some (TraceCell t)"
    using lt ne assms(1) by (simp add: cellAt_Some_iff h nth_append)
  from verify_effect [OF t, of rt "hashTrace rt (traceObject t)"] obtain w'' where
    "verify rt (hashTrace rt (traceObject t)) tr w' = Some (True, w'')" by auto
  with c r t show ?thesis by (simp add: hashTrace_def)
qed

lemma commit_fresh_trace_result:
  assumes "cellAt w (commitments this) = Some (ArrayCell xs)"
  shows "\<exists>r w' c w''. commit rt now this (length (heap w)) (snd (alloc (TraceCell t) w))
                        = Some (r, w')
      \<and> cellAt w' r = Some (CommitmentCell c)
      \<and> cellAt w' (trace c) = Some (TraceCell t)
      \<and> hash c = hashTrace rt (traceObject t)
      \<and> verify rt (hash c) (trace c) w' = Some (True, w'')"
proof -
  let ?w1 = "snd (alloc (TraceCell t) w)"
  from assms have lt: "commitments this < length (heap w)" by (simp add: cellAt_Some_iff)
  have t1: "cellAt ?w1 (length (heap w)) = Some (TraceCell t)"
    by (simp add: cellAt_Some_iff alloc_def)
  have a1: "cellAt ?w1 (commitments this) = Some (ArrayCell xs)"
    using assms lt by (simp add: cellAt_Some_iff alloc_def nth_append)
  from commit_result [OF t1 a1, of rt now] show ?thesis by auto
qed

text \<open>
  C1. Whenever \<open>commit\<close> is given a trace, it returns a commitment result whose hash is the
  hash of that trace, that is the SHA-256 digest of the text \<^verbatim>\<open>JSON.stringify\<close> gives for
  it with the sorted top-level keys as replacer; \<open>verify\<close> on the hash and the trace of the
  result then answers true. The same holds of the results of \<open>commitTradeDecision\<close> and
  \<open>commitFirewallDecision\<close>, for the trace they build.
\<close>

theorem commit_hash_matches_trace:
  assumes "cellAt w tr = Some (TraceCell t)"
    and "cellAt w (commitments this) = Some (ArrayCell xs)"
  shows "(\<exists>r w' c w''. commit rt now this tr w = Some (r, w')
      \<and> cellAt w' r = Some (CommitmentCell c)
      \<and> trace c = tr \<and> cellAt w' tr = Some (TraceCell t)
      \<and> hash c = hashTrace rt (traceObject t)
      \<and> hash c = sha256hex rt (JSON_stringify rt (sort (Object_keys (traceObject t)))
                                  (traceObject t))
      \<and> verify rt (hash c) (trace c) w' = Some (True, w''))
    \<and> (\<exists>r w' c w''. commitTradeDecision rt clk now this d w = Some (r, w')
      \<and> cellAt w' r = Some (CommitmentCell c)
      \<and> cellAt w' (trace c) = Some (TraceCell (createTradeReasoningTrace rt clk d))
      \<and> hash c = hashTrace rt (traceObject (createTradeReasoningTrace rt clk d))
      \<and> verify rt (hash c) (trace c) w' = Some (True, w''))
    \<and> (\<exists>r w' c w''. commitFirewallDecision rt clk now this p w = Some (r, w')
      \<and> cellAt w' r = Some (CommitmentCell c)
      \<and> cellAt w' (trace c) = Some (TraceCell (createFirewallTrace rt clk p))
      \<and> hash c = hashTrace rt (traceObject (createFirewallTrace rt clk p))
      \<and> verify rt (hash c) (trace c) w' = Some (True, w''))"
proof -
  have trade: "\<exists>r w' c w''. commitTradeDecision rt clk now this d w = Some (r, w')
      \<and> cellAt w' r = Some (CommitmentCell c)
      \<and> cellAt w' (trace c) = Some (TraceCell (createTradeReasoningTrace rt clk d))
      \<and> hash c = hashTrace rt (traceObject (createTradeReasoningTrace rt clk d))
      \<and> verify rt (hash c) (trace c) w' = Some (True, w'')"
    using commit_fresh_trace_result [OF assms(2), of rt now "createTradeReasoningTrace rt clk d"]
    by (simp add: commitTradeDecision_def alloc_def)
  have firewall: "\<exists>r w' c w''. commitFirewallDecision rt clk now this p w = Some (r, w')
      \<and> cellAt w' r = Some (CommitmentCell c)
      \<and> cellAt w' (trace c) = Some (TraceCell (createFirewallTrace rt clk p))
      \<and> hash c = hashTrace rt (traceObject (createFirewallTrace rt clk p))
      \<and> verify rt (hash c) (trace c) w' = Some (True, w'')"
    using commit_fresh_trace_result [OF assms(2), of rt now "createFirewallTrace rt clk p"]
    by (simp add: commitFirewallDecision_def alloc_def)
  from commit_result [OF assms, of rt now] trade firewall show ?thesis by blast
qed

theorem commit_hash_matches_trace_witness:
  "cellAt shield_world 0 = Some (TraceCell sample_trace)
   \<and> cellAt shield_world (commitments sample_shield) = Some (ArrayCell [])
   \<and> (\<exists>r w' c w''. commit sample_runtime (Finite 1767225600001) sample_shield 0 shield_world
                       = Some (r, w')
      \<and> cellAt w' r = Some (CommitmentCell c)
      \<and> trace c = 0 \<and> cellAt w' 0 = Some (TraceCell sample_trace)
      \<and> hash c = hashTrace sample_runtime (traceObject sample_trace)
      \<and> hash c = sha256hex sample_runtime
                    (JSON_stringify sample_runtime (sort (Object_keys (traceObject sample_trace)))
                       (traceObject sample_trace))
      \<and> verify sample_runtime (hash c) (trace c) w' = Some (True, w''))
   \<and> (\<exists>r w' c w''. commitFirewallDecision sample_runtime sample_clock (Finite 1767225600002)
                       sample_shield sample_params shield_world = Some (r, w')
      \<and> cellAt w' r = Some (CommitmentCell c)
      \<and> hash c = hashTrace sample_runtime
                    (traceObject (createFirewallTrace sample_runtime sample_clock sample_params))
      \<and> verify sample_runtime (hash c) (trace c) w' = Some (True, w''))"
proof -
  have t: "cellAt shield_world 0 = Some (TraceCell sample_trace)"
    by (simp add: cellAt_def sample_shield_simps)
  have a: "cellAt shield_world (commitments sample_shield) = Some (ArrayCell [])"
    by (simp add: cellAt_def sample_shield_simps)
  from commit_hash_matches_trace [OF t a, of sample_runtime "Finite 1767225600001"
      sample_clock sample_decision sample_params]
  have "\<exists>r w' c w''. commit sample_runtime (Finite 1767225600001) sample_shield 0 shield_world
                       = Some (r, w')
      \<and> cellAt w' r = Some (CommitmentCell c)
      \<and> trace c = 0 \<and> cellAt w' 0 = Some (TraceCell sample_trace)
      \<and> hash c = hashTrace sample_runtime (traceObject sample_trace)
      \<and> hash c = sha256hex sample_runtime
                    (JSON_stringify sample_runtime (sort (Object_keys (traceObject sample_trace)))
                       (traceObject sample_trace))
      \<and> verify sample_runtime (hash c) (trace c) w' = Some (True, w'')"
    by blast
  moreover
  from commit_hash_matches_trace [OF t a, of sample_runtime "Finite 1767225600002"
      sample_clock sample_decision sample_params]
  have "\<exists>r w' c w''. commitFirewallDecision sample_runtime sample_clock (Finite 1767225600002)
                       sample_shield sample_params shield_world = Some (r, w')
      \<and> cellAt w' r = Some (CommitmentCell c)
      \<and> hash c = hashTrace sample_runtime
                    (traceObject (createFirewallTrace sample_runtime sample_clock sample_params))
      \<and> verify sample_runtime (hash c) (trace c) w' = Some (True, w'')"
    by blast
  ultimately show ?thesis using t a by blast
qed

subsection \<open>What the hash depends on\<close>

text \<open>
  C2 (the code does not do what the claim says). The claim is that two traces that differ in
  a leaf field have different hashes, so that \<open>verify\<close> rejects a trace with one field
  changed. The replacer of \<open>hashTrace\<close> keeps, at every depth, only the properties named like
  a top-level key: the nested objects are written \<^verbatim>\<open>{}\<close>. The sample trace and its copy with
  another \<open>decision.confidence\<close> are different traces with the same hash, for every digest
  function, and \<open>verify\<close> accepts the copy against the hash of the original.
\<close>

theorem hashTrace_blind_to_nested_fields:
  "tampered_trace \<noteq> sample_trace
   \<and> hashTrace rt (traceObject tampered_trace) = hashTrace rt (traceObject sample_trace)
   \<and> (\<exists>w. verify rt (hashTrace rt (traceObject sample_trace)) 1 shield_world = Some (True, w))"
proof -
  have "confidence (decision sample_trace) = Finite 82"
    by (simp add: sample_trace_def createTradeReasoningTrace_def sample_decision_def)
  moreover have "confidence (decision tampered_trace) = Finite 10"
    by (simp add: tampered_trace_def)
  ultimately have ne: "tampered_trace \<noteq> sample_trace" by auto
  have eq: "hashTrace rt (traceObject tampered_trace) = hashTrace rt (traceObject sample_trace)"
    by (rule hashTrace_top_level_only) (simp_all add: tampered_trace_def)
  have "cellAt shield_world 1 = Some (TraceCell tampered_trace)"
    by (simp add: cellAt_def sample_shield_simps)
  from verify_effect [OF this, of rt "hashTrace rt (traceObject sample_trace)"] eq
  have "\<exists>w. verify rt (hashTrace rt (traceObject sample_trace)) 1 shield_world = Some (True, w)"
    by auto
  with ne eq show ?thesis by blast
qed

theorem hashTrace_blind_to_nested_fields_witness:
  "tampered_trace \<noteq> sample_trace
   \<and> hashTrace sample_runtime (traceObject tampered_trace)
     = hashTrace sample_runtime (traceObject sample_trace)
   \<and> (\<exists>w. verify sample_runtime (hashTrace sample_runtime (traceObject sample_trace)) 1
             shield_world = Some (True, w))"
  by (rule hashTrace_blind_to_nested_fields)

subsection \<open>Order of construction\<close>

text \<open>
  C3. Two traces with the same content, whatever the order in which their keys were
  inserted at any depth, have the same hash: the property list fixes which keys are written
  and in which order, in every object.
\<close>

theorem hashTrace_order_independent:
  assumes "same_content (JObj t1) (JObj t2)"
  shows "hashTrace rt t1 = hashTrace rt t2"
proof -
  let ?K = "propertyList (sort (Object_keys t1))"
  have k: "sort (Object_keys t1) = sort (Object_keys t2)"
    using assms by (rule same_content_sorted_keys)
  have "serializeJSONProperty rt ?K (JObj t1) = serializeJSONProperty rt ?K (JObj t2)"
    using assms by (rule serialize_same_content)
  then show ?thesis by (simp add: hashTrace_def JSON_stringify_def k)
qed

theorem hashTrace_order_independent_witness:
  "built_one_way \<noteq> built_other_way
   \<and> same_content (JObj built_one_way) (JObj built_other_way)
   \<and> hashTrace sample_runtime built_one_way = hashTrace sample_runtime built_other_way"
proof -
  have ne: "built_one_way \<noteq> built_other_way"
    by (simp add: built_one_way_def built_other_way_def)
  have sc: "same_content (JObj built_one_way) (JObj built_other_way)"
    by (auto simp: built_one_way_def built_other_way_def)
  from hashTrace_order_independent [OF sc, of sample_runtime] ne sc show ?thesis by blast
qed

section \<open>Properties of the trace builders\<close>

lemma tradeApproved_spec: "tradeApproved d = approvedBySpec d"
  by (cases "scamCheck d")
     (auto simp: tradeApproved_def allStagesPassed_def scamSafe_def approvedBySpec_def list_all_iff)

lemma approvedBySpec_samples:
  "approvedBySpec sample_decision"
  "approvedBySpec cautious_decision"
  "\<not> approvedBySpec failed_decision"
  "\<not> approvedBySpec scam_decision"
  by (simp_all add: approvedBySpec_def sample_decision_def cautious_decision_def
      failed_decision_def scam_decision_def sample_stages_def sample_scamCheck_def)

lemma num_lt_not_ge: "num_lt x y \<Longrightarrow> \<not> num_ge x y"
  by (cases x; cases y) simp_all

lemma join_holds_element: "x \<in> set xs \<Longrightarrow> \<exists>pre post. join sep xs = pre @ x @ post"
proof (induction sep xs rule: join.induct)
  case (1 sep)
  then show ?case by simp
next
  case (2 sep y)
  then have "join sep [y] = [] @ x @ []" by simp
  then show ?case by blast
next
  case (3 sep y z zs)
  show ?case
  proof (cases "x = y")
    case True
    then have "join sep (y # z # zs) = [] @ x @ (sep @ join sep (z # zs))" by simp
    then show ?thesis by blast
  next
    case False
    with "3.prems" have "x \<in> set (z # zs)" by simp
    from "3.IH" [OF this] obtain pre post where "join sep (z # zs) = pre @ x @ post" by blast
    then have "join sep (y # z # zs) = (y @ sep @ pre) @ x @ post" by simp
    then show ?thesis by blast
  qed
qed

subsection \<open>Approval and the type of the action\<close>

text \<open>
  C4. The trace of a trade decision is approved exactly when every prediction stage has
  passed and there is no scam check or its \<open>isScam\<close> is false; the approval is what the
  builder records under \<open>metadata.custom.approved\<close>, and the type of the action is
  \<open>trade\<close> when approved and \<open>rejection\<close> otherwise.
\<close>

theorem trade_approval_decides_action_type:
  "tradeApproved d = approvedBySpec d
   \<and> customField (createTradeReasoningTrace rt clk d) ''approved''
       = Some (SBoolean (approvedBySpec d))
   \<and> action_type (action (createTradeReasoningTrace rt clk d))
       = (if approvedBySpec d then ''trade'' else ''rejection'')
   \<and> (action_type (action (createTradeReasoningTrace rt clk d)) = ''trade'' \<longleftrightarrow> approvedBySpec d)"
  by (simp add: createTradeReasoningTrace_def customField_def tradeApproved_spec)

theorem trade_approval_decides_action_type_witness:
  "approvedBySpec sample_decision
   \<and> action_type (action (createTradeReasoningTrace sample_runtime sample_clock sample_decision))
       = ''trade''
   \<and> \<not> approvedBySpec failed_decision
   \<and> action_type (action (createTradeReasoningTrace sample_runtime sample_clock failed_decision))
       = ''rejection''
   \<and> \<not> approvedBySpec scam_decision
   \<and> action_type (action (createTradeReasoningTrace sample_runtime sample_clock scam_decision))
       = ''rejection''"
  using trade_approval_decides_action_type [of sample_decision sample_runtime sample_clock]
    trade_approval_decides_action_type [of failed_decision sample_runtime sample_clock]
    trade_approval_decides_action_type [of scam_decision sample_runtime sample_clock]
  by (simp add: approvedBySpec_samples)

subsection \<open>Risk assessment\<close>

text \<open>
  C5. The risk assessment of the trace of a trade decision is \<open>low\<close> when the decision is
  approved and its confidence is at least 80, \<open>moderate\<close> when it is approved and its
  confidence is below 80, and \<open>high\<close> when it is not approved. For the decision of the usage
  example (three passed stages, a safe scam check, confidence 82) the action is a \<open>trade\<close>
  and the risk is \<open>low\<close>.
\<close>

theorem trade_risk_assessment:
  "(approvedBySpec d \<and> num_ge (trade_confidence d) (Finite 80)
      \<longrightarrow> riskAssessment (decision (createTradeReasoningTrace rt clk d)) = ''low'')
   \<and> (approvedBySpec d \<and> num_lt (trade_confidence d) (Finite 80)
      \<longrightarrow> riskAssessment (decision (createTradeReasoningTrace rt clk d)) = ''moderate'')
   \<and> (\<not> approvedBySpec d
      \<longrightarrow> riskAssessment (decision (createTradeReasoningTrace rt clk d)) = ''high'')
   \<and> action_type (action (createTradeReasoningTrace rt clk sample_decision)) = ''trade''
   \<and> riskAssessment (decision (createTradeReasoningTrace rt clk sample_decision)) = ''low''"
proof -
  have "trade_confidence sample_decision = Finite 82" by (simp add: sample_decision_def)
  then show ?thesis
    using approvedBySpec_samples(1)
    by (auto simp: createTradeReasoningTrace_def tradeApproved_spec dest: num_lt_not_ge)
qed

theorem trade_risk_assessment_witness:
  "approvedBySpec sample_decision \<and> num_ge (trade_confidence sample_decision) (Finite 80)
   \<and> riskAssessment (decision (createTradeReasoningTrace sample_runtime sample_clock
        sample_decision)) = ''low''
   \<and> approvedBySpec cautious_decision \<and> num_lt (trade_confidence cautious_decision) (Finite 80)
   \<and> riskAssessment (decision (createTradeReasoningTrace sample_runtime sample_clock
        cautious_decision)) = ''moderate''
   \<and> \<not> approvedBySpec failed_decision
   \<and> riskAssessment (decision (createTradeReasoningTrace sample_runtime sample_clock
        failed_decision)) = ''high''"
proof -
  have c: "num_ge (trade_confidence sample_decision) (Finite 80)"
    "num_lt (trade_confidence cautious_decision) (Finite 80)"
    by (simp_all add: sample_decision_def cautious_decision_def)
  show ?thesis
    using trade_risk_assessment [of sample_decision sample_runtime sample_clock]
      trade_risk_assessment [of cautious_decision sample_runtime sample_clock]
      trade_risk_assessment [of failed_decision sample_runtime sample_clock]
      c approvedBySpec_samples
    by blast
qed

subsection \<open>Alternatives considered\<close>

text \<open>
  C6. The trace of an approved trade decision lists exactly two alternatives: to reject the
  trade, and to wait for more confirmations, the latter with the confidence of the decision
  and the number of its stages. The trace of a decision that is not approved lists exactly
  one, to execute anyway; its reason names every failed stage when a stage failed, and
  otherwise says that the scam check flagged the token, which it then did.
\<close>

theorem trade_alternatives_considered:
  "(approvedBySpec d \<longrightarrow>
      alternativesConsidered (analysis (createTradeReasoningTrace rt clk d)) =
        [\<lparr>alt_action = ''Reject trade'',
          reasonRejected = ''All prediction stages passed and scam check is clean''\<rparr>,
         \<lparr>alt_action = ''Wait for more confirmations'',
          reasonRejected = ''Confidence at '' @ numberToString rt (trade_confidence d) @ ''%, all ''
            @ numberToString rt (ofLength (length (predictionStages d)))
            @ '' stages confirmed''\<rparr>])
   \<and> (\<not> approvedBySpec d \<longrightarrow>
      (\<exists>alt. alternativesConsidered (analysis (createTradeReasoningTrace rt clk d)) = [alt]
         \<and> alt_action alt = ''Execute '' @ tradeActionText (trade_action d) @ '' anyway''
         \<and> ((\<exists>s \<in> set (predictionStages d). \<not> passed s) \<longrightarrow>
              reasonRejected alt =
                numberToString rt (ofLength (length (failedStages d)))
                @ '' prediction stage(s) failed: '' @ join '', '' (map stage_name (failedStages d))
              \<and> (\<forall>s \<in> set (predictionStages d). \<not> passed s \<longrightarrow>
                    (\<exists>pre post. reasonRejected alt = pre @ stage_name s @ post)))
         \<and> ((\<forall>s \<in> set (predictionStages d). passed s) \<longrightarrow>
              reasonRejected alt = ''Scam check flagged this token''
              \<and> (\<exists>sc. scamCheck d = Some sc \<and> isScam sc))))"
proof (cases "approvedBySpec d")
  case True
  then show ?thesis
    by (simp add: createTradeReasoningTrace_def tradeAlternatives_def tradeApproved_spec)
next
  case False
  define alt where "alt =
     \<lparr>alt_action = ''Execute '' @ tradeActionText (trade_action d) @ '' anyway'',
      reasonRejected =
        (if length (failedStages d) > 0
         then numberToString rt (ofLength (length (failedStages d)))
              @ '' prediction stage(s) failed: '' @ join '', '' (map stage_name (failedStages d))
         else ''Scam check flagged this token'')\<rparr>"
  have alts: "alternativesConsidered (analysis (createTradeReasoningTrace rt clk d)) = [alt]"
    using False
    by (simp add: createTradeReasoningTrace_def tradeAlternatives_def tradeApproved_spec alt_def)
  have failed_iff: "length (failedStages d) > 0 \<longleftrightarrow> (\<exists>s \<in> set (predictionStages d). \<not> passed s)"
    by (auto simp: failedStages_def filter_empty_conv)
  have act: "alt_action alt = ''Execute '' @ tradeActionText (trade_action d) @ '' anyway''"
    by (simp add: alt_def)
  have some_failed: "reasonRejected alt =
      numberToString rt (ofLength (length (failedStages d)))
      @ '' prediction stage(s) failed: '' @ join '', '' (map stage_name (failedStages d))"
    if "\<exists>s \<in> set (predictionStages d). \<not> passed s"
    using that failed_iff by (simp add: alt_def)
  have named: "\<exists>pre post. reasonRejected alt = pre @ stage_name s @ post"
    if s: "s \<in> set (predictionStages d)" "\<not> passed s" for s
  proof -
    from s have "stage_name s \<in> set (map stage_name (failedStages d))"
      by (simp add: failedStages_def)
    from join_holds_element [OF this, of "'', ''"] obtain pre post where
      j: "join '', '' (map stage_name (failedStages d)) = pre @ stage_name s @ post" by blast
    from s have "\<exists>s \<in> set (predictionStages d). \<not> passed s" by blast
    from some_failed [OF this] have "reasonRejected alt =
        (numberToString rt (ofLength (length (failedStages d)))
         @ '' prediction stage(s) failed: '' @ pre) @ stage_name s @ post"
      by (simp only: j append_assoc)
    then show ?thesis by blast
  qed
  have none_failed: "reasonRejected alt = ''Scam check flagged this token''"
    if "\<forall>s \<in> set (predictionStages d). passed s"
    using that failed_iff by (simp add: alt_def)
  have scam: "\<exists>sc. scamCheck d = Some sc \<and> isScam sc" if "\<forall>s \<in> set (predictionStages d). passed s"
    using that False by (auto simp: approvedBySpec_def)
  from False alts act some_failed named none_failed scam show ?thesis by blast
qed

theorem trade_alternatives_considered_witness:
  "approvedBySpec sample_decision
   \<and> alternativesConsidered (analysis (createTradeReasoningTrace sample_runtime sample_clock
        sample_decision)) =
        [\<lparr>alt_action = ''Reject trade'',
          reasonRejected = ''All prediction stages passed and scam check is clean''\<rparr>,
         \<lparr>alt_action = ''Wait for more confirmations'',
          reasonRejected = ''Confidence at 82%, all 3 stages confirmed''\<rparr>]
   \<and> \<not> approvedBySpec failed_decision
   \<and> (\<exists>s \<in> set (predictionStages failed_decision). \<not> passed s)
   \<and> (\<exists>alt. alternativesConsidered (analysis (createTradeReasoningTrace sample_runtime
          sample_clock failed_decision)) = [alt]
        \<and> alt_action alt = ''Execute buy anyway''
        \<and> reasonRejected alt = ''1 prediction stage(s) failed: 5min-validate'')
   \<and> \<not> approvedBySpec scam_decision
   \<and> list_all passed (predictionStages scam_decision)
   \<and> (\<exists>alt. alternativesConsidered (analysis (createTradeReasoningTrace sample_runtime
          sample_clock scam_decision)) = [alt]
        \<and> alt_action alt = ''Execute buy anyway''
        \<and> reasonRejected alt = ''Scam check flagged this token'')"
proof -
  have n: "numberToString sample_runtime (trade_confidence sample_decision) = ''82''"
    "numberToString sample_runtime (ofLength (length (predictionStages sample_decision))) = ''3''"
    by (simp_all add: sample_runtime_def sample_numberToString_def sample_decision_def
        sample_stages_def ofLength_def)
  have f: "\<exists>s \<in> set (predictionStages failed_decision). \<not> passed s"
    "length (failedStages failed_decision) = Suc 0"
    "map stage_name (failedStages failed_decision) = [''5min-validate'']"
    "trade_action failed_decision = buy"
    by (simp_all add: failed_decision_def failedStages_def sample_decision_def sample_stages_def)
  have f1: "numberToString sample_runtime (ofLength (Suc 0)) = ''1''"
    by (simp add: sample_runtime_def sample_numberToString_def ofLength_def)
  have s: "\<forall>s \<in> set (predictionStages scam_decision). passed s"
    "trade_action scam_decision = buy"
    by (simp_all add: scam_decision_def sample_decision_def sample_stages_def)
  from trade_alternatives_considered [of sample_decision sample_runtime sample_clock]
  have one: "alternativesConsidered (analysis (createTradeReasoningTrace sample_runtime sample_clock
        sample_decision)) =
        [\<lparr>alt_action = ''Reject trade'',
          reasonRejected = ''All prediction stages passed and scam check is clean''\<rparr>,
         \<lparr>alt_action = ''Wait for more confirmations'',
          reasonRejected = ''Confidence at 82%, all 3 stages confirmed''\<rparr>]"
    using approvedBySpec_samples(1) by (simp add: n)
  from trade_alternatives_considered [of failed_decision sample_runtime sample_clock]
  have two: "\<exists>alt. alternativesConsidered (analysis (createTradeReasoningTrace sample_runtime
          sample_clock failed_decision)) = [alt]
        \<and> alt_action alt = ''Execute buy anyway''
        \<and> reasonRejected alt = ''1 prediction stage(s) failed: 5min-validate''"
    using approvedBySpec_samples(3) f(1) by (auto simp: f f1)
  from trade_alternatives_considered [of scam_decision sample_runtime sample_clock]
  have three: "\<exists>alt. alternativesConsidered (analysis (createTradeReasoningTrace sample_runtime
          sample_clock scam_decision)) = [alt]
        \<and> alt_action alt = ''Execute buy anyway''
        \<and> reasonRejected alt = ''Scam check flagged this token''"
    using approvedBySpec_samples(4) s(1) by (auto simp: s(2))
  from s(1) have all_passed: "list_all passed (predictionStages scam_decision)"
    by (simp add: list_all_iff)
  from one two three f(1) all_passed approvedBySpec_samples show ?thesis by blast
qed

subsection \<open>The firewall trace\<close>

text \<open>
  C7. The trace of a firewall decision has exactly five observations, in this order: the
  transaction type; the simulation, passed or failed when it was run and skipped when it was
  not; the spend limit, within or exceeded; the slippage, within or exceeded; the program
  allowlist, allowed or blocked. It has one alternative, to block when the transaction is
  approved and to allow when it is not; the confidence 90 with risk \<open>low\<close> when approved, and
  95 with risk \<open>high\<close> when not. The parameters hold no confidence, and nothing of the
  decision depends on the runtime or the clock.
\<close>

theorem firewall_trace_shape:
  "length (observations (analysis (createFirewallTrace rt clk p))) = 5
   \<and> observations (analysis (createFirewallTrace rt clk p)) =
       [''Transaction type: '' @ transactionType p,
        ''Simulation: '' @ (if simulated p
                            then (if simulationPassed p then CHECK_MARK @ '' PASS''
                                  else CROSS_MARK @ '' FAIL'')
                            else SKIP_MARK @ '' SKIPPED''),
        ''Spend limit: '' @ (if spendLimitOk p then CHECK_MARK @ '' OK''
                             else CROSS_MARK @ '' EXCEEDED''),
        ''Slippage: '' @ (if slippageOk p then CHECK_MARK @ '' OK''
                          else CROSS_MARK @ '' EXCEEDED''),
        ''Program allowlist: '' @ (if programAllowed p then CHECK_MARK @ '' ALLOWED''
                                   else CROSS_MARK @ '' BLOCKED'')]
   \<and> length (alternativesConsidered (analysis (createFirewallTrace rt clk p))) = 1
   \<and> alternativesConsidered (analysis (createFirewallTrace rt clk p)) =
       [if approved p
        then \<lparr>alt_action = ''Block transaction'', reasonRejected = ''All firewall checks passed''\<rparr>
        else \<lparr>alt_action = ''Allow transaction'', reasonRejected = reason p\<rparr>]
   \<and> confidence (decision (createFirewallTrace rt clk p))
       = (if approved p then Finite 90 else Finite 95)
   \<and> riskAssessment (decision (createFirewallTrace rt clk p))
       = (if approved p then ''low'' else ''high'')
   \<and> decision (createFirewallTrace rt clk p) = decision (createFirewallTrace rt' clk' p)"
  by (simp add: createFirewallTrace_def firewallObservations_def)

theorem firewall_trace_shape_witness:
  "approved sample_params
   \<and> observations (analysis (createFirewallTrace sample_runtime sample_clock sample_params)) =
       [''Transaction type: swap'',
        ''Simulation: '' @ CHECK_MARK @ '' PASS'',
        ''Spend limit: '' @ CHECK_MARK @ '' OK'',
        ''Slippage: '' @ CHECK_MARK @ '' OK'',
        ''Program allowlist: '' @ CHECK_MARK @ '' ALLOWED'']
   \<and> alternativesConsidered (analysis (createFirewallTrace sample_runtime sample_clock
        sample_params)) =
       [\<lparr>alt_action = ''Block transaction'', reasonRejected = ''All firewall checks passed''\<rparr>]
   \<and> confidence (decision (createFirewallTrace sample_runtime sample_clock sample_params))
       = Finite 90
   \<and> riskAssessment (decision (createFirewallTrace sample_runtime sample_clock sample_params))
       = ''low''
   \<and> \<not> approved denied_params
   \<and> observations (analysis (createFirewallTrace sample_runtime sample_clock denied_params)) =
       [''Transaction type: swap'',
        ''Simulation: '' @ SKIP_MARK @ '' SKIPPED'',
        ''Spend limit: '' @ CROSS_MARK @ '' EXCEEDED'',
        ''Slippage: '' @ CHECK_MARK @ '' OK'',
        ''Program allowlist: '' @ CROSS_MARK @ '' BLOCKED'']
   \<and> alternativesConsidered (analysis (createFirewallTrace sample_runtime sample_clock
        denied_params)) =
       [\<lparr>alt_action = ''Allow transaction'', reasonRejected = ''Spend limit exceeded''\<rparr>]
   \<and> confidence (decision (createFirewallTrace sample_runtime sample_clock denied_params))
       = Finite 95
   \<and> riskAssessment (decision (createFirewallTrace sample_runtime sample_clock denied_params))
       = ''high''
   \<and> observations (analysis (createFirewallTrace sample_runtime sample_clock failed_params)) =
       [''Transaction type: swap'',
        ''Simulation: '' @ CROSS_MARK @ '' FAIL'',
        ''Spend limit: '' @ CHECK_MARK @ '' OK'',
        ''Slippage: '' @ CROSS_MARK @ '' EXCEEDED'',
        ''Program allowlist: '' @ CHECK_MARK @ '' ALLOWED'']"
proof -
  have p: "approved sample_params" "transactionType sample_params = ''swap''"
    "simulated sample_params" "simulationPassed sample_params" "spendLimitOk sample_params"
    "slippageOk sample_params" "programAllowed sample_params"
    by (simp_all add: sample_params_def)
  have d: "\<not> approved denied_params" "transactionType denied_params = ''swap''"
    "\<not> simulated denied_params" "\<not> spendLimitOk denied_params"
    "slippageOk denied_params" "\<not> programAllowed denied_params"
    "reason denied_params = ''Spend limit exceeded''"
    by (simp_all add: denied_params_def sample_params_def)
  have f: "transactionType failed_params = ''swap''"
    "simulated failed_params" "\<not> simulationPassed failed_params" "spendLimitOk failed_params"
    "\<not> slippageOk failed_params" "programAllowed failed_params"
    by (simp_all add: failed_params_def sample_params_def)
  show ?thesis
    using firewall_trace_shape [of sample_runtime sample_clock sample_params]
      firewall_trace_shape [of sample_runtime sample_clock denied_params]
      firewall_trace_shape [of sample_runtime sample_clock failed_params]
    by (simp add: p d f)
qed

section \<open>Properties of the history\<close>

subsection \<open>Frames\<close>

lemma extends_except_refl: "extends_except a w w"
  by (simp add: extends_except_def)

lemma extends_except_trans:
  "extends_except a w1 w2 \<Longrightarrow> extends_except a w2 w3 \<Longrightarrow> extends_except a w1 w3"
  by (auto simp: extends_except_def)

lemma extends_except_cellAt:
  "extends_except a w w' \<Longrightarrow> cellAt w b = Some c \<Longrightarrow> b \<noteq> a \<Longrightarrow> cellAt w' b = Some c"
  by (auto simp: extends_except_def cellAt_Some_iff)

lemma commit_frame:
  assumes "cellAt w tr = Some (TraceCell t)"
    and "cellAt w (commitments this) = Some (ArrayCell xs)"
  shows "\<exists>w'. commit rt now this tr w = Some (length (heap w), w')
      \<and> cellAt w' (commitments this) = Some (ArrayCell (xs @ [length (heap w)]))
      \<and> cellAt w' (length (heap w))
          = Some (CommitmentCell \<lparr>hash = hashTrace rt (traceObject t), trace = tr,
                                   commit_timestamp = now\<rparr>)
      \<and> extends_except (commitments this) w w'"
proof -
  from assms have lt: "commitments this < length (heap w)" by (simp add: cellAt_Some_iff)
  from commit_effect [OF assms, of rt now] obtain w' where
    c: "commit rt now this tr w = Some (length (heap w), w')"
    and h: "heap w' = (heap w @ [CommitmentCell \<lparr>hash = hashTrace rt (traceObject t), trace = tr,
                                                   commit_timestamp = now\<rparr>])
                      [commitments this := ArrayCell (xs @ [length (heap w)])]"
    by blast
  have "cellAt w' (commitments this) = Some (ArrayCell (xs @ [length (heap w)]))"
    using lt by (simp add: cellAt_Some_iff h)
  moreover have "cellAt w' (length (heap w))
          = Some (CommitmentCell \<lparr>hash = hashTrace rt (traceObject t), trace = tr,
                                   commit_timestamp = now\<rparr>)"
    using lt by (simp add: cellAt_Some_iff h)
  moreover have "extends_except (commitments this) w w'"
    by (simp add: extends_except_def h nth_append)
  ultimately show ?thesis using c by blast
qed

lemma commit_fresh_trace_frame:
  assumes "cellAt w (commitments this) = Some (ArrayCell xs)"
  shows "\<exists>r w'. commit rt now this (length (heap w)) (snd (alloc (TraceCell t) w)) = Some (r, w')
      \<and> cellAt w' (commitments this) = Some (ArrayCell (xs @ [r]))
      \<and> extends_except (commitments this) w w'"
proof -
  let ?w1 = "snd (alloc (TraceCell t) w)"
  from assms have lt: "commitments this < length (heap w)" by (simp add: cellAt_Some_iff)
  have t1: "cellAt ?w1 (length (heap w)) = Some (TraceCell t)"
    by (simp add: cellAt_Some_iff alloc_def)
  have a1: "cellAt ?w1 (commitments this) = Some (ArrayCell xs)"
    using assms lt by (simp add: cellAt_Some_iff alloc_def nth_append)
  have e1: "extends_except (commitments this) w ?w1"
    by (simp add: extends_except_def alloc_def nth_append)
  from commit_frame [OF t1 a1, of rt now] obtain w' where
    "commit rt now this (length (heap w)) ?w1 = Some (length (heap ?w1), w')"
    "cellAt w' (commitments this) = Some (ArrayCell (xs @ [length (heap ?w1)]))"
    "extends_except (commitments this) ?w1 w'"
    by blast
  with e1 show ?thesis by (blast intro: extends_except_trans)
qed

lemma perform_effect:
  assumes arr: "cellAt w (commitments this) = Some (ArrayCell xs)"
    and wt: "wellTyped w c"
  shows "\<exists>out w'. perform rt this c w = Some (out, w')
      \<and> cellAt w' (commitments this) = Some (ArrayCell (xs @ committed [out]))
      \<and> length (committed [out]) = (if commits c then 1 else 0)
      \<and> extends_except (commitments this) w w'"
proof (cases c)
  case (Commit now tr)
  with wt obtain t where "cellAt w tr = Some (TraceCell t)"
    by (auto split: option.splits cell.splits)
  from commit_frame [OF this arr, of rt now] show ?thesis
    using Commit by auto
next
  case (Verify h tr)
  with wt obtain t where "cellAt w tr = Some (TraceCell t)"
    by (auto split: option.splits cell.splits)
  from verify_effect [OF this, of rt h] obtain w' where
    v: "verify rt h tr w = Some (hashTrace rt (traceObject t) = h, w')" and h: "heap w' = heap w"
    by blast
  from arr h have "cellAt w' (commitments this) = Some (ArrayCell xs)"
    by (simp add: cellAt_Some_iff)
  moreover from h have "extends_except (commitments this) w w'"
    by (simp add: extends_except_def)
  ultimately show ?thesis using Verify v by simp
next
  case GetCommitments
  let ?w' = "w\<lparr>heap := heap w @ [ArrayCell xs]\<rparr>"
  from arr have lt: "commitments this < length (heap w)" by (simp add: cellAt_Some_iff)
  have "cellAt ?w' (commitments this) = Some (ArrayCell xs)"
    using arr lt by (simp add: cellAt_Some_iff nth_append)
  moreover have "extends_except (commitments this) w ?w'"
    by (simp add: extends_except_def nth_append)
  ultimately show ?thesis
    using GetCommitments getCommitments_effect [OF arr] by simp
next
  case (CommitTradeDecision clk now d)
  from commit_fresh_trace_frame [OF arr, of rt now "createTradeReasoningTrace rt clk d"]
  show ?thesis
    using CommitTradeDecision by (auto simp: commitTradeDecision_def alloc_def)
next
  case (CommitFirewallDecision clk now p)
  from commit_fresh_trace_frame [OF arr, of rt now "createFirewallTrace rt clk p"]
  show ?thesis
    using CommitFirewallDecision by (auto simp: commitFirewallDecision_def alloc_def)
qed

lemma wellTyped_extends:
  assumes "extends_except a w w'" and "cellAt w a = Some (ArrayCell xs)" and "wellTyped w c"
  shows "wellTyped w' c"
proof (cases c)
  case (Commit now tr)
  with assms(3) obtain t where t: "cellAt w tr = Some (TraceCell t)"
    by (auto split: option.splits cell.splits)
  with assms(2) have "tr \<noteq> a" by auto
  from extends_except_cellAt [OF assms(1) t this] show ?thesis using Commit by simp
next
  case (Verify h tr)
  with assms(3) obtain t where t: "cellAt w tr = Some (TraceCell t)"
    by (auto split: option.splits cell.splits)
  with assms(2) have "tr \<noteq> a" by auto
  from extends_except_cellAt [OF assms(1) t this] show ?thesis using Verify by simp
qed simp_all

lemma committed_Cons: "committed (out # outs) = committed [out] @ committed outs"
  by (cases out) simp_all

lemma run_effect:
  assumes "cellAt w (commitments this) = Some (ArrayCell xs)"
    and "list_all (wellTyped w) calls"
  shows "\<exists>outs w'. run rt this calls w = Some (outs, w')
      \<and> length outs = length calls
      \<and> cellAt w' (commitments this) = Some (ArrayCell (xs @ committed outs))
      \<and> length (committed outs) = length (filter commits calls)
      \<and> extends_except (commitments this) w w'"
  using assms
proof (induction calls arbitrary: w xs)
  case Nil
  then show ?case by (simp add: extends_except_refl)
next
  case (Cons c cs)
  from Cons.prems have wt: "wellTyped w c" and rest: "list_all (wellTyped w) cs" by simp_all
  from perform_effect [OF Cons.prems(1) wt, of rt] obtain out w1 where
    p: "perform rt this c w = Some (out, w1)"
    and a1: "cellAt w1 (commitments this) = Some (ArrayCell (xs @ committed [out]))"
    and n1: "length (committed [out]) = (if commits c then 1 else 0)"
    and e1: "extends_except (commitments this) w w1"
    by blast
  have "list_all (wellTyped w1) cs"
    using rest wellTyped_extends [OF e1 Cons.prems(1)] by (simp add: list_all_iff)
  from Cons.IH [OF a1 this] obtain outs w' where
    r: "run rt this cs w1 = Some (outs, w')"
    and l: "length outs = length cs"
    and a: "cellAt w' (commitments this) = Some (ArrayCell ((xs @ committed [out]) @ committed outs))"
    and n: "length (committed outs) = length (filter commits cs)"
    and e: "extends_except (commitments this) w1 w'"
    by blast
  have "run rt this (c # cs) w = Some (out # outs, w')" using p r by simp
  moreover have "length (out # outs) = length (c # cs)" using l by simp
  moreover have "cellAt w' (commitments this) = Some (ArrayCell (xs @ committed (out # outs)))"
    using a by (simp add: committed_Cons [of out outs])
  moreover have "length (committed (out # outs)) = length (filter commits (c # cs))"
    using n n1 by (simp add: committed_Cons [of out outs])
  moreover have "extends_except (commitments this) w w'"
    using e1 e by (rule extends_except_trans)
  ultimately show ?case by blast
qed

lemma new_SolprismShield_effect:
  "cellAt (snd (new_SolprismShield cfg w)) (commitments (fst (new_SolprismShield cfg w)))
     = Some (ArrayCell [])"
  by (simp add: new_SolprismShield_def alloc_def cellAt_def)

lemma getCommitments_snapshot:
  assumes "cellAt w (commitments this) = Some (ArrayCell xs)"
  shows "\<exists>a w'. getCommitments this w = Some (a, w') \<and> cellAt w' a = Some (ArrayCell xs)"
  using getCommitments_effect [OF assms] by (simp add: cellAt_def)

subsection \<open>The history only grows\<close>

text \<open>
  C8. A manager that has just been constructed has an empty history. From any state of a
  manager, with history \<open>xs\<close>, after any sequence of calls of its methods,
  \<open>getCommitments\<close> returns \<open>xs\<close> followed by the results of the calls that commit, in
  call order, one for each such call: nothing is removed or moved. From a new manager
  \<open>xs\<close> is empty, and what is returned is a sequence whose length is the number of commits
  and whose \<open>i\<close>-th element is the result of the \<open>i\<close>-th commit.
\<close>

theorem commitments_append_only:
  assumes "cellAt w (commitments this) = Some (ArrayCell xs)"
    and "list_all (wellTyped w) calls"
  shows "(\<exists>a w1. getCommitments (fst (new_SolprismShield cfg w0)) (snd (new_SolprismShield cfg w0))
                   = Some (a, w1) \<and> cellAt w1 a = Some (ArrayCell []))
    \<and> (\<exists>outs w' a w''. run rt this calls w = Some (outs, w')
         \<and> length outs = length calls
         \<and> length (committed outs) = length (filter commits calls)
         \<and> getCommitments this w' = Some (a, w'')
         \<and> cellAt w'' a = Some (ArrayCell (xs @ committed outs)))
    \<and> (new_SolprismShield cfg w0 = (this, w) \<longrightarrow> xs = [])"
proof -
  have fresh: "xs = []" if "new_SolprismShield cfg w0 = (this, w)"
    using that assms(1) new_SolprismShield_effect [of cfg w0] by simp
  from run_effect [OF assms, of rt] obtain outs w' where
    r: "run rt this calls w = Some (outs, w')" "length outs = length calls"
      "length (committed outs) = length (filter commits calls)"
    and a: "cellAt w' (commitments this) = Some (ArrayCell (xs @ committed outs))"
    by blast
  from getCommitments_snapshot [OF a] r
  have "\<exists>outs w' a w''. run rt this calls w = Some (outs, w')
         \<and> length outs = length calls
         \<and> length (committed outs) = length (filter commits calls)
         \<and> getCommitments this w' = Some (a, w'')
         \<and> cellAt w'' a = Some (ArrayCell (xs @ committed outs))"
    by blast
  with getCommitments_snapshot [OF new_SolprismShield_effect, of cfg w0] fresh
  show ?thesis by blast
qed

lemma run_sample_calls:
  "\<exists>b w'. run sample_runtime sample_shield sample_calls shield_world
            = Some ([Committed 3, Snapshot 4, Committed 6, Verified b, Committed 7], w')"
  by (simp add: sample_calls_def commit_def verify_def getCommitments_def
      commitFirewallDecision_def alloc_def assign_def console_log_def cellAt_def
      sample_shield_simps Let_def)

theorem commitments_append_only_witness:
  "new_SolprismShield (Some ''my-agent-shield'') sample_world = (sample_shield, shield_world)
   \<and> cellAt shield_world (commitments sample_shield) = Some (ArrayCell [])
   \<and> list_all (wellTyped shield_world) sample_calls
   \<and> length (filter commits sample_calls) = 3
   \<and> (\<exists>outs w' a w''. run sample_runtime sample_shield sample_calls shield_world = Some (outs, w')
         \<and> committed outs = [3, 6, 7]
         \<and> getCommitments sample_shield w' = Some (a, w'')
         \<and> cellAt w'' a = Some (ArrayCell [3, 6, 7]))"
proof -
  have a: "cellAt shield_world (commitments sample_shield) = Some (ArrayCell [])"
    by (simp add: cellAt_def sample_shield_simps)
  have t: "list_all (wellTyped shield_world) sample_calls"
    by (simp add: sample_calls_def cellAt_def sample_shield_simps)
  have n: "length (filter commits sample_calls) = 3"
    by (simp add: sample_calls_def)
  have new: "new_SolprismShield (Some ''my-agent-shield'') sample_world
      = (sample_shield, shield_world)"
    by (simp add: sample_shield_def shield_world_def)
  from commitments_append_only [OF a t, of "Some ''my-agent-shield''" sample_world sample_runtime]
  obtain outs w' b w'' where
    r: "run sample_runtime sample_shield sample_calls shield_world = Some (outs, w')"
    and g: "getCommitments sample_shield w' = Some (b, w'')"
      "cellAt w'' b = Some (ArrayCell ([] @ committed outs))"
    by blast
  from r run_sample_calls have "committed outs = [3, 6, 7]" by auto
  with r g a t n new show ?thesis by auto
qed

subsection \<open>The array that getCommitments returns\<close>

lemma history_extends:
  assumes arr: "cellAt w (commitments this) = Some (ArrayCell xs)"
    and wf: "list_all (\<lambda>r. resultAt w r \<noteq> None) xs"
    and ext: "extends_except a w w'"
    and out: "length (heap w) \<le> a"
  shows "cellAt w' (commitments this) = Some (ArrayCell xs)" and "history this w' = history this w"
proof -
  have keep: "cellAt w' b = Some c" if "cellAt w b = Some c" for b c
  proof -
    from that out have "b \<noteq> a" by (auto simp: cellAt_Some_iff)
    from extends_except_cellAt [OF ext that this] show ?thesis .
  qed
  from keep [OF arr] show arr': "cellAt w' (commitments this) = Some (ArrayCell xs)" .
  have "resultAt w' r = resultAt w r" if "r \<in> set xs" for r
  proof -
    from wf that have "resultAt w r \<noteq> None" by (simp add: list_all_iff)
    then obtain c t where c: "cellAt w r = Some (CommitmentCell c)"
      and t: "cellAt w (trace c) = Some (TraceCell t)"
      by (auto simp: resultAt_def split: option.splits cell.splits)
    from keep [OF c] keep [OF t] c t show ?thesis by (simp add: resultAt_def)
  qed
  then have "map (resultAt w') xs = map (resultAt w) xs" by simp
  with arr arr' show "history this w' = history this w" by (simp add: history_def)
qed

lemma committed_world_heap:
  "heap committed_world =
     [TraceCell sample_trace, TraceCell tampered_trace, ArrayCell [3],
      CommitmentCell \<lparr>hash = hashTrace sample_runtime (traceObject sample_trace), trace = 0,
                      commit_timestamp = Finite 1767225600001\<rparr>]"
  by (simp add: committed_world_def commit_def alloc_def assign_def console_log_def cellAt_def
      sample_shield_simps Let_def)

lemma audited_world_heap:
  "heap audited_world = heap committed_world @ [ArrayCell [3]]"
  by (simp add: audited_world_def getCommitments_def alloc_def cellAt_def
      sample_shield_simps committed_world_heap)

text \<open>
  C9, as the code has it. \<open>getCommitments\<close> returns a new array with the references of the
  internal one. Whatever the caller then makes of the returned array (adding, removing,
  replacing, reordering its elements), the internal array, the history and the answer of a
  later \<open>getCommitments\<close> are what they were. The commitment results themselves are not
  copied: they are shared with the manager. The hypotheses are the typing of the source: the
  internal array is an array whose elements are commitment results, each with its trace.
\<close>

theorem getCommitments_returns_new_array:
  assumes "cellAt w (commitments this) = Some (ArrayCell xs)"
    and "list_all (\<lambda>r. resultAt w r \<noteq> None) xs"
  shows "\<exists>a w1. getCommitments this w = Some (a, w1)
     \<and> a \<noteq> commitments this \<and> cellAt w a = None \<and> cellAt w1 a = Some (ArrayCell xs)
     \<and> history this w1 = history this w
     \<and> (\<forall>ys. cellAt (assign a (ArrayCell ys) w1) (commitments this) = Some (ArrayCell xs)
            \<and> history this (assign a (ArrayCell ys) w1) = history this w
            \<and> (\<exists>a' w2. getCommitments this (assign a (ArrayCell ys) w1) = Some (a', w2)
                 \<and> cellAt w2 a' = Some (ArrayCell xs) \<and> history this w2 = history this w))"
proof -
  let ?a = "length (heap w)"
  let ?w1 = "w\<lparr>heap := heap w @ [ArrayCell xs]\<rparr>"
  from assms(1) have lt: "commitments this < ?a" by (simp add: cellAt_Some_iff)
  have g: "getCommitments this w = Some (?a, ?w1)" by (rule getCommitments_effect [OF assms(1)])
  have fresh: "?a \<noteq> commitments this" "cellAt w ?a = None" "cellAt ?w1 ?a = Some (ArrayCell xs)"
    using lt by (simp_all add: cellAt_def)
  have e1: "extends_except ?a w ?w1" by (simp add: extends_except_def nth_append)
  note h1 = history_extends [OF assms e1 order_refl]
  have after: "cellAt (assign ?a (ArrayCell ys) ?w1) (commitments this) = Some (ArrayCell xs)
            \<and> history this (assign ?a (ArrayCell ys) ?w1) = history this w
            \<and> (\<exists>a' w2. getCommitments this (assign ?a (ArrayCell ys) ?w1) = Some (a', w2)
                 \<and> cellAt w2 a' = Some (ArrayCell xs) \<and> history this w2 = history this w)" for ys
  proof -
    let ?w2 = "assign ?a (ArrayCell ys) ?w1"
    let ?w3 = "?w2\<lparr>heap := heap ?w2 @ [ArrayCell xs]\<rparr>"
    have e2: "extends_except ?a w ?w2" by (simp add: extends_except_def assign_def nth_append)
    note h2 = history_extends [OF assms e2 order_refl]
    have g2: "getCommitments this ?w2 = Some (length (heap ?w2), ?w3)"
      by (rule getCommitments_effect [OF h2(1)])
    have c3: "cellAt ?w3 (length (heap ?w2)) = Some (ArrayCell xs)" by (simp add: cellAt_def)
    have e3: "extends_except ?a w ?w3"
      by (simp add: extends_except_def assign_def nth_append)
    note h3 = history_extends [OF assms e3 order_refl]
    from h2 g2 c3 h3(2) show ?thesis by blast
  qed
  from g fresh h1(2) after show ?thesis by blast
qed

theorem getCommitments_returns_new_array_witness:
  "cellAt committed_world (commitments sample_shield) = Some (ArrayCell [3])
   \<and> list_all (\<lambda>r. resultAt committed_world r \<noteq> None) [3]
   \<and> (\<exists>a w1. getCommitments sample_shield committed_world = Some (a, w1)
        \<and> a \<noteq> commitments sample_shield \<and> cellAt w1 a = Some (ArrayCell [3])
        \<and> cellAt (assign a (ArrayCell []) w1) (commitments sample_shield) = Some (ArrayCell [3])
        \<and> history sample_shield (assign a (ArrayCell []) w1) = history sample_shield committed_world
        \<and> (\<exists>a' w2. getCommitments sample_shield (assign a (ArrayCell []) w1) = Some (a', w2)
             \<and> cellAt w2 a' = Some (ArrayCell [3])))"
proof -
  have a: "cellAt committed_world (commitments sample_shield) = Some (ArrayCell [3])"
    by (simp add: cellAt_def committed_world_heap sample_shield_simps)
  have wf: "list_all (\<lambda>r. resultAt committed_world r \<noteq> None) [3]"
    by (simp add: resultAt_def cellAt_def committed_world_heap)
  from getCommitments_returns_new_array [OF a wf] a wf show ?thesis by blast
qed

text \<open>
  C9, as the claim has it, fails: after one commit, the caller who changes the hash of the
  commitment result it finds in the returned array has changed the history of the manager.
\<close>

theorem getCommitments_shares_results:
  "commit sample_runtime (Finite 1767225600001) sample_shield 0 shield_world
     = Some (3, committed_world)
   \<and> getCommitments sample_shield committed_world = Some (4, audited_world)
   \<and> cellAt audited_world 4 = Some (ArrayCell [3])
   \<and> history sample_shield (assign 3 (CommitmentCell forged_result) audited_world)
       \<noteq> history sample_shield audited_world
   \<and> resultAt (assign 3 (CommitmentCell forged_result) audited_world) 3
       = Some (forged_result, sample_trace)"
proof -
  have c: "commit sample_runtime (Finite 1767225600001) sample_shield 0 shield_world
     = Some (3, committed_world)"
    by (simp add: committed_world_def commit_def alloc_def assign_def console_log_def cellAt_def
        sample_shield_simps Let_def)
  have g: "getCommitments sample_shield committed_world = Some (4, audited_world)"
    by (simp add: audited_world_def getCommitments_def alloc_def cellAt_def
        sample_shield_simps committed_world_heap)
  have s: "cellAt audited_world 4 = Some (ArrayCell [3])"
    by (simp add: cellAt_def audited_world_heap committed_world_heap)
  have "hashTrace sample_runtime (traceObject sample_trace) \<noteq> ''forged''"
    unfolding hashTrace_def Let_def canonical_traceObject
    by (simp add: sample_runtime_def sample_digest_def)
  then have h: "history sample_shield (assign 3 (CommitmentCell forged_result) audited_world)
       \<noteq> history sample_shield audited_world"
    by (simp add: history_def resultAt_def cellAt_def assign_def audited_world_heap
        committed_world_heap sample_shield_simps forged_result_def)
  have r: "resultAt (assign 3 (CommitmentCell forged_result) audited_world) 3
       = Some (forged_result, sample_trace)"
    by (simp add: resultAt_def cellAt_def assign_def audited_world_heap
        committed_world_heap forged_result_def)
  from c g s h r show ?thesis by blast
qed

subsection \<open>The trace of a commitment\<close>

text \<open>
  C10. A sequence of calls of \<open>commit\<close> changes no object that was there before, the traces
  among them, but the internal array. The results it adds to the history are, in call order,
  one for each call: a result whose \<open>trace\<close> is the very reference that was passed, which
  still refers to the trace as it was passed.
\<close>

theorem commit_keeps_trace_unmodified:
  assumes "cellAt w (commitments this) = Some (ArrayCell xs)"
    and "list_all (\<lambda>(now, tr). wellTyped w (Commit now tr)) cs"
  shows "\<exists>outs w'. run rt this (map (\<lambda>(now, tr). Commit now tr) cs) w = Some (outs, w')
    \<and> extends_except (commitments this) w w'
    \<and> (\<forall>(now, tr) \<in> set cs. cellAt w' tr = cellAt w tr)
    \<and> cellAt w' (commitments this) = Some (ArrayCell (xs @ committed outs))
    \<and> map (resultAt w') (committed outs) = map (expectedResult rt w) cs
    \<and> list_all (\<lambda>e. e \<noteq> None) (map (expectedResult rt w) cs)"
  using assms
proof (induction cs arbitrary: w xs)
  case Nil
  then show ?case by (simp add: extends_except_refl)
next
  case (Cons c cs)
  obtain now tr where c: "c = (now, tr)" by (cases c)
  let ?A = "commitments this"
  from Cons.prems c obtain t where t: "cellAt w tr = Some (TraceCell t)"
    by (auto split: option.splits cell.splits)
  from Cons.prems have rest: "list_all (\<lambda>(now, tr). wellTyped w (Commit now tr)) cs" by simp
  let ?c = "\<lparr>hash = hashTrace rt (traceObject t), trace = tr, commit_timestamp = now\<rparr>"
  let ?r = "length (heap w)"
  from commit_frame [OF t Cons.prems(1), of rt now] obtain w1 where
    co: "commit rt now this tr w = Some (?r, w1)"
    and a1: "cellAt w1 ?A = Some (ArrayCell (xs @ [?r]))"
    and c1: "cellAt w1 ?r = Some (CommitmentCell ?c)"
    and e1: "extends_except ?A w w1"
    by blast
  from Cons.prems(1) have rA: "?r \<noteq> ?A" by (auto simp: cellAt_Some_iff)
  have same1: "cellAt w1 tr' = cellAt w tr'" if "wellTyped w (Commit now' tr')" for now' tr'
  proof -
    from that obtain t' where t': "cellAt w tr' = Some (TraceCell t')"
      by (auto split: option.splits cell.splits)
    with Cons.prems(1) have "tr' \<noteq> ?A" by auto
    from extends_except_cellAt [OF e1 t' this] t' show ?thesis by simp
  qed
  have "wellTyped w1 (Commit n' tr')" if "(n', tr') \<in> set cs" for n' tr'
  proof -
    from that rest have "wellTyped w (Commit n' tr')"
      by (auto simp: list_all_iff simp del: wellTyped.simps)
    then show ?thesis by (rule wellTyped_extends [OF e1 Cons.prems(1)])
  qed
  then have rest1: "list_all (\<lambda>(now, tr). wellTyped w1 (Commit now tr)) cs"
    by (auto simp: list_all_iff simp del: wellTyped.simps)
  from Cons.IH [OF a1 rest1] obtain outs w' where
    r: "run rt this (map (\<lambda>(now, tr). Commit now tr) cs) w1 = Some (outs, w')"
    and e: "extends_except ?A w1 w'"
    and k: "\<forall>(now, tr) \<in> set cs. cellAt w' tr = cellAt w1 tr"
    and a: "cellAt w' ?A = Some (ArrayCell ((xs @ [?r]) @ committed outs))"
    and m: "map (resultAt w') (committed outs) = map (expectedResult rt w1) cs"
    and d: "list_all (\<lambda>e. e \<noteq> None) (map (expectedResult rt w1) cs)"
    by blast
  have ex: "expectedResult rt w1 x = expectedResult rt w x" if "x \<in> set cs" for x
  proof -
    obtain n' tr' where x: "x = (n', tr')" by (cases x)
    with that rest have "wellTyped w (Commit n' tr')" by (auto simp: list_all_iff)
    from same1 [OF this] x show ?thesis by simp
  qed
  have t1: "cellAt w1 tr = Some (TraceCell t)"
    using same1 [of now tr] t by simp
  from t Cons.prems(1) have trA: "tr \<noteq> ?A" by auto
  have tw': "cellAt w' tr = Some (TraceCell t)"
    by (rule extends_except_cellAt [OF e t1 trA])
  have cw': "cellAt w' ?r = Some (CommitmentCell ?c)"
    by (rule extends_except_cellAt [OF e c1 rA])
  have "run rt this (map (\<lambda>(now, tr). Commit now tr) (c # cs)) w = Some (Committed ?r # outs, w')"
    using co r c by simp
  moreover have "extends_except ?A w w'" using e1 e by (rule extends_except_trans)
  moreover have "\<forall>(now, tr) \<in> set (c # cs). cellAt w' tr = cellAt w tr"
  proof -
    have "cellAt w' tr' = cellAt w tr'" if "(n', tr') \<in> set cs" for n' tr'
    proof -
      from that rest have "wellTyped w (Commit n' tr')" by (auto simp: list_all_iff)
      from same1 [OF this] k that show ?thesis by auto
    qed
    with tw' t c show ?thesis by auto
  qed
  moreover have "cellAt w' ?A = Some (ArrayCell (xs @ committed (Committed ?r # outs)))"
    using a by simp
  moreover have "map (resultAt w') (committed (Committed ?r # outs))
      = map (expectedResult rt w) (c # cs)"
  proof -
    have "resultAt w' ?r = expectedResult rt w c"
      using cw' tw' t c by (simp add: resultAt_def)
    moreover have "map (expectedResult rt w1) cs = map (expectedResult rt w) cs"
      using ex by simp
    ultimately show ?thesis using m by simp
  qed
  moreover have "list_all (\<lambda>e. e \<noteq> None) (map (expectedResult rt w) (c # cs))"
  proof -
    have "map (expectedResult rt w1) cs = map (expectedResult rt w) cs"
      using ex by simp
    with d t c show ?thesis by simp
  qed
  ultimately show ?case by blast
qed

theorem commit_keeps_trace_unmodified_witness:
  "cellAt shield_world (commitments sample_shield) = Some (ArrayCell [])
   \<and> list_all (\<lambda>(now, tr). wellTyped shield_world (Commit now tr))
        [(Finite 1767225600001, 0), (Finite 1767225600003, 1)]
   \<and> (\<exists>outs w'. run sample_runtime sample_shield
                    [Commit (Finite 1767225600001) 0, Commit (Finite 1767225600003) 1] shield_world
                  = Some (outs, w')
        \<and> cellAt w' 0 = Some (TraceCell sample_trace)
        \<and> cellAt w' 1 = Some (TraceCell tampered_trace)
        \<and> cellAt w' (commitments sample_shield) = Some (ArrayCell (committed outs))
        \<and> map (resultAt w') (committed outs) =
            [Some (\<lparr>hash = hashTrace sample_runtime (traceObject sample_trace), trace = 0,
                     commit_timestamp = Finite 1767225600001\<rparr>, sample_trace),
             Some (\<lparr>hash = hashTrace sample_runtime (traceObject tampered_trace), trace = 1,
                     commit_timestamp = Finite 1767225600003\<rparr>, tampered_trace)])"
proof -
  have a: "cellAt shield_world (commitments sample_shield) = Some (ArrayCell [])"
    by (simp add: cellAt_def sample_shield_simps)
  have t: "list_all (\<lambda>(now, tr). wellTyped shield_world (Commit now tr))
        [(Finite 1767225600001, 0), (Finite 1767225600003, 1)]"
    by (simp add: cellAt_def sample_shield_simps)
  have c: "cellAt shield_world 0 = Some (TraceCell sample_trace)"
    "cellAt shield_world (Suc 0) = Some (TraceCell tampered_trace)"
    by (simp_all add: cellAt_def sample_shield_simps)
  from commit_keeps_trace_unmodified [OF a t, of sample_runtime] a t
  show ?thesis by (auto simp: c)
qed

end
